theory Spec2Isabelle
  imports Complex_Main "HOL-Library.AList"
begin

section \<open>Python values\<close>

text \<open>
  The values that flow through \<^verbatim>\<open>aap/worker.py\<close> and \<^verbatim>\<open>aap/utils.py\<close> are
  JSON-shaped Python values. \<open>JNull\<close> is Python's \<^verbatim>\<open>None\<close>, \<open>JObj\<close> is a
  \<^verbatim>\<open>dict\<close> with string keys in insertion order, \<open>JInt\<close> is a Python \<^verbatim>\<open>int\<close> and
  \<open>JFloat\<close> a Python \<^verbatim>\<open>float\<close>.
  A Python \<^verbatim>\<open>str\<close> is a \<open>string\<close> whose characters are the code points 0..255.

  A \<^verbatim>\<open>float\<close> is a finite value, an infinity or \<^verbatim>\<open>nan\<close>. The model does no
  floating-point arithmetic of its own: every conversion to \<^verbatim>\<open>float\<close> and every sum of
  floats is a library function, taken as a parameter below, so rounding and overflow are
  whatever the library does. The two zeros are one value.
\<close>

datatype pyfloat = Finite rat | PosInf | NegInf | NaN

datatype json =
    JNull
  | JBool bool
  | JInt int
  | JFloat pyfloat
  | JStr string
  | JArr "json list"
  | JObj "(string \<times> json) list"

type_synonym pydict = "(string \<times> json) list"

text \<open>Truth value of a Python object, as \<^verbatim>\<open>if x:\<close>, \<^verbatim>\<open>x or y\<close> and \<^verbatim>\<open>not x\<close> read it.\<close>

fun truthy :: "json \<Rightarrow> bool" where
  "truthy JNull = False"
| "truthy (JBool b) = b"
| "truthy (JInt i) = (i \<noteq> 0)"
| "truthy (JFloat f) = (f \<noteq> Finite 0)"
| "truthy (JStr s) = (s \<noteq> [])"
| "truthy (JArr xs) = (xs \<noteq> [])"
| "truthy (JObj kvs) = (kvs \<noteq> [])"

definition py_or :: "json \<Rightarrow> json \<Rightarrow> json" where
  "py_or a b = (if truthy a then a else b)"

text \<open>\<^verbatim>\<open>d.get(k)\<close> and \<^verbatim>\<open>d.get(k, default)\<close> on a dict.\<close>

definition dict_get :: "pydict \<Rightarrow> string \<Rightarrow> json" where
  "dict_get d k = (case map_of d k of None \<Rightarrow> JNull | Some v \<Rightarrow> v)"

definition dict_get_default :: "pydict \<Rightarrow> string \<Rightarrow> json \<Rightarrow> json" where
  "dict_get_default d k dflt = (case map_of d k of None \<Rightarrow> dflt | Some v \<Rightarrow> v)"

text \<open>\<^verbatim>\<open>k in d\<close> on a dict.\<close>

definition has_key :: "pydict \<Rightarrow> string \<Rightarrow> bool" where
  "has_key d k = (map_of d k \<noteq> None)"

section \<open>Strings\<close>

text \<open>\<^verbatim>\<open>text[start:end]\<close> for \<open>0 \<le> start \<le> end\<close>.\<close>

definition slice :: "string \<Rightarrow> nat \<Rightarrow> nat \<Rightarrow> string" where
  "slice text start end = take (end - start) (drop start text)"

text \<open>\<^verbatim>\<open>text.find(c)\<close> for a one-character needle; \<open>None\<close> is Python's \<open>-1\<close>.\<close>

fun find_char :: "char \<Rightarrow> string \<Rightarrow> nat option" where
  "find_char c [] = None"
| "find_char c (x # xs) = (if x = c then Some 0 else map_option Suc (find_char c xs))"

section \<open>String operations and the regular expressions of the source\<close>

text \<open>
  Whitespace as \<^verbatim>\<open>\s\<close>, \<^verbatim>\<open>str.split()\<close> and \<^verbatim>\<open>str.strip()\<close> see it, among the code
  points 0..255: tab to carriage return, the separators 28..31, space, 133 and 160.
\<close>

definition is_space :: "char \<Rightarrow> bool" where
  "is_space c = (let n = (of_char c :: nat) in
     (9 \<le> n \<and> n \<le> 13) \<or> (28 \<le> n \<and> n \<le> 32) \<or> n = 133 \<or> n = 160)"

definition is_digit :: "char \<Rightarrow> bool" where
  "is_digit c = (let n = (of_char c :: nat) in 48 \<le> n \<and> n \<le> 57)"

definition is_ascii_alpha :: "char \<Rightarrow> bool" where
  "is_ascii_alpha c = (let n = (of_char c :: nat) in (65 \<le> n \<and> n \<le> 90) \<or> (97 \<le> n \<and> n \<le> 122))"

definition is_quote :: "char \<Rightarrow> bool" where
  "is_quote c = (c = CHR 0x27 \<or> c = CHR 0x22)"

text \<open>\<^verbatim>\<open>str.lower()\<close> on the code points 0..255.\<close>

definition lower_char :: "char \<Rightarrow> char" where
  "lower_char c = (let n = (of_char c :: nat) in
     if (65 \<le> n \<and> n \<le> 90) \<or> (192 \<le> n \<and> n \<le> 222 \<and> n \<noteq> 215) then char_of (n + 32) else c)"

definition lower :: "string \<Rightarrow> string" where
  "lower s = map lower_char s"

text \<open>\<^verbatim>\<open>s.startswith(p)\<close>, \<^verbatim>\<open>s.endswith(p)\<close>, \<^verbatim>\<open>needle in hay\<close>, \<^verbatim>\<open>s.strip()\<close>.\<close>

fun startswith :: "string \<Rightarrow> string \<Rightarrow> bool" where
  "startswith s [] = True"
| "startswith [] (p # ps) = False"
| "startswith (c # cs) (p # ps) = (c = p \<and> startswith cs ps)"

definition endswith :: "string \<Rightarrow> string \<Rightarrow> bool" where
  "endswith s p = startswith (rev s) (rev p)"

fun contains :: "string \<Rightarrow> string \<Rightarrow> bool" where
  "contains [] needle = (needle = [])"
| "contains (c # cs) needle = (startswith (c # cs) needle \<or> contains cs needle)"

definition strip :: "string \<Rightarrow> string" where
  "strip s = rev (dropWhile is_space (rev (dropWhile is_space s)))"

text \<open>
  \<^verbatim>\<open>re.findall(r"(https?://[^\s'\"<>]+)", text)\<close>. \<open>match_url\<close> is the match of the
  pattern at the start of a text; \<open>find_urls_from\<close> scans from left to right, its
  counter being the number of characters still covered by the previous match.
\<close>

definition url_char :: "char \<Rightarrow> bool" where
  "url_char c = (\<not> is_space c \<and> \<not> is_quote c \<and> c \<noteq> CHR ''<'' \<and> c \<noteq> CHR ''>'')"

definition match_url :: "string \<Rightarrow> string option" where
  "match_url s =
     (if startswith s ''https://'' \<and> takeWhile url_char (drop 8 s) \<noteq> []
        then Some (''https://'' @ takeWhile url_char (drop 8 s))
      else if startswith s ''http://'' \<and> takeWhile url_char (drop 7 s) \<noteq> []
        then Some (''http://'' @ takeWhile url_char (drop 7 s))
      else None)"

fun find_urls_from :: "nat \<Rightarrow> string \<Rightarrow> string list" where
  "find_urls_from k [] = []"
| "find_urls_from (Suc k) (c # cs) = find_urls_from k cs"
| "find_urls_from 0 (c # cs) =
     (case match_url (c # cs) of
        Some u \<Rightarrow> u # find_urls_from (length u - 1) cs
      | None \<Rightarrow> find_urls_from 0 cs)"

definition find_urls :: "string \<Rightarrow> string list" where
  "find_urls text = find_urls_from 0 text"

text \<open>\<^verbatim>\<open>re.findall(r'href=[\'"]([^\'"]+)', text)\<close>: the list of the captured groups.\<close>

definition match_href :: "string \<Rightarrow> string option" where
  "match_href s =
     (if startswith s ''href='' then
        (case drop 5 s of
           [] \<Rightarrow> None
         | q # rest \<Rightarrow>
             if is_quote q \<and> takeWhile (\<lambda>c. \<not> is_quote c) rest \<noteq> []
             then Some (takeWhile (\<lambda>c. \<not> is_quote c) rest) else None)
      else None)"

fun find_hrefs_from :: "nat \<Rightarrow> string \<Rightarrow> string list" where
  "find_hrefs_from k [] = []"
| "find_hrefs_from (Suc k) (c # cs) = find_hrefs_from k cs"
| "find_hrefs_from 0 (c # cs) =
     (case match_href (c # cs) of
        Some g \<Rightarrow> g # find_hrefs_from (5 + length g) cs
      | None \<Rightarrow> find_hrefs_from 0 cs)"

definition find_hrefs :: "string \<Rightarrow> string list" where
  "find_hrefs text = find_hrefs_from 0 text"

text \<open>
  \<^verbatim>\<open>number_re = re.compile(r"-?\d+(?:\.\d+)?")\<close>. \<open>match_number\<close> gives the length of
  the match at the start of a text; \<open>number_tokens\<close> is the list of \<^verbatim>\<open>m.group()\<close> over
  \<^verbatim>\<open>number_re.finditer(text)\<close>.
\<close>

definition match_unsigned :: "string \<Rightarrow> nat option" where
  "match_unsigned s =
     (let ds = takeWhile is_digit s in
      if ds = [] then None
      else (case drop (length ds) s of
              CHR ''.'' # r \<Rightarrow>
                (let fs = takeWhile is_digit r in
                 if fs = [] then Some (length ds)
                 else Some (length ds + 1 + length fs))
            | _ \<Rightarrow> Some (length ds)))"

definition match_number :: "string \<Rightarrow> nat option" where
  "match_number s =
     (case s of
        CHR ''-'' # r \<Rightarrow> (case match_unsigned r of Some n \<Rightarrow> Some (Suc n) | None \<Rightarrow> None)
      | _ \<Rightarrow> match_unsigned s)"

fun number_tokens_from :: "nat \<Rightarrow> string \<Rightarrow> string list" where
  "number_tokens_from k [] = []"
| "number_tokens_from (Suc k) (c # cs) = number_tokens_from k cs"
| "number_tokens_from 0 (c # cs) =
     (case match_number (c # cs) of
        Some n \<Rightarrow> take n (c # cs) # number_tokens_from (n - 1) cs
      | None \<Rightarrow> number_tokens_from 0 cs)"

definition number_tokens :: "string \<Rightarrow> string list" where
  "number_tokens text = number_tokens_from 0 text"

text \<open>
  \<^verbatim>\<open>re.search(r"sum of the[^\n\r]*['\"]?([A-Za-z0-9 _-]+)['\"]? column", text, re.I)\<close>,
  giving group 1 of the leftmost match. The matcher backtracks as \<^verbatim>\<open>re\<close> does:
  \<open>try_skip\<close> shortens the greedy run \<^verbatim>\<open>[^\n\r]*\<close> from its full length down to 0,
  \<open>try_group\<close> shortens the greedy group from its full length down to 1. An optional
  quote is taken whenever one is there, since neither the group nor the literal that
  may follow can start with a quote.
\<close>

definition col_char :: "char \<Rightarrow> bool" where
  "col_char c = (is_ascii_alpha c \<or> is_digit c \<or> c = CHR '' '' \<or> c = CHR ''_'' \<or> c = CHR ''-'')"

definition skip_quote :: "string \<Rightarrow> string" where
  "skip_quote s = (case s of [] \<Rightarrow> [] | q # r \<Rightarrow> if is_quote q then r else s)"

fun try_group :: "string \<Rightarrow> nat \<Rightarrow> string option" where
  "try_group s 0 = None"
| "try_group s (Suc n) =
     (if startswith (lower (skip_quote (drop (Suc n) s))) '' column''
      then Some (take (Suc n) s) else try_group s n)"

definition col_tail :: "string \<Rightarrow> string option" where
  "col_tail s = try_group (skip_quote s) (length (takeWhile col_char (skip_quote s)))"

fun try_skip :: "string \<Rightarrow> nat \<Rightarrow> string option" where
  "try_skip s 0 = col_tail s"
| "try_skip s (Suc k) =
     (case col_tail (drop (Suc k) s) of Some g \<Rightarrow> Some g | None \<Rightarrow> try_skip s k)"

definition match_column_question :: "string \<Rightarrow> string option" where
  "match_column_question s =
     (if startswith (lower s) ''sum of the''
      then try_skip (drop 10 s)
             (length (takeWhile (\<lambda>c. c \<noteq> CHR 0x0A \<and> c \<noteq> CHR 0x0D) (drop 10 s)))
      else None)"

fun search_column_question :: "string \<Rightarrow> string option" where
  "search_column_question [] = None"
| "search_column_question (c # cs) =
     (case match_column_question (c # cs) of
        Some g \<Rightarrow> Some g
      | None \<Rightarrow> search_column_question cs)"

text \<open>
  \<^verbatim>\<open>re.search(r"([A-Za-z0-9+/=\s]{100,})", text)\<close>: the leftmost position from which
  at least 100 characters of the class follow, and the whole run from there.
\<close>

definition b64_char :: "char \<Rightarrow> bool" where
  "b64_char c = (is_ascii_alpha c \<or> is_digit c \<or> c = CHR ''+'' \<or> c = CHR ''/'' \<or> c = CHR ''=''
     \<or> is_space c)"

fun find_b64_run :: "string \<Rightarrow> string option" where
  "find_b64_run [] = None"
| "find_b64_run (c # cs) =
     (if 100 \<le> length (takeWhile b64_char (c # cs)) then Some (takeWhile b64_char (c # cs))
      else find_b64_run cs)"

text \<open>Decimal text of an integer, as an f-string formats it.\<close>

fun nat_str :: "nat \<Rightarrow> string" where
  "nat_str n = (if n < 10 then [char_of (48 + n)] else nat_str (n div 10) @ [char_of (48 + n mod 10)])"

declare nat_str.simps [simp del]

definition int_str :: "int \<Rightarrow> string" where
  "int_str i = (if i < 0 then CHR ''-'' # nat_str (nat (- i)) else nat_str (nat i))"

section \<open>Exceptions, libraries and the outside world\<close>

text \<open>
  An exception is a value. \<open>AttributeError\<close> is the one the interpreter raises when a
  method is looked up on an object that has none of that name; \<open>LibraryError\<close> is an
  exception raised inside a library call, with its message.
\<close>

datatype exn = AttributeError | LibraryError string

text \<open>
  A pandas \<^verbatim>\<open>DataFrame\<close>: the columns in order, each with its label and its cells.
  A label is a string when the table has a header row and an integer when it has none.
  A cell is a number, \<^verbatim>\<open>NaN\<close> among them, or a string.
\<close>

datatype label = LStr string | LInt int

datatype cell = CNum pyfloat | CStr string

type_synonym dataframe = "(label \<times> cell list) list"

text \<open>
  The library functions the source calls, as parameters. Where the source catches the
  exception and ignores it the function returns an option; where the exception's text is
  kept the function returns the message on the left.
  \<^item> \<open>json_loads\<close>: \<^verbatim>\<open>json.loads\<close> on a text that starts with an opening brace;
  \<^item> \<open>json_dumps\<close>: \<^verbatim>\<open>json.dumps\<close>;
  \<^item> \<open>b64decode_utf8\<close>: \<^verbatim>\<open>base64.b64decode(block).decode("utf-8", errors="ignore")\<close>;
  \<^item> \<open>pd_read_html\<close>, \<open>pd_read_csv\<close>, \<open>pd_read_excel\<close>: the pandas readers;
  \<^item> \<open>float_literal\<close>: \<^verbatim>\<open>float(s)\<close> on a text that \<^verbatim>\<open>number_re\<close> has matched, where it
    never raises;
  \<^item> \<open>py_sum\<close>: the builtin \<^verbatim>\<open>sum\<close> on a list of floats that is not empty;
  \<^item> \<open>py_float\<close>: \<^verbatim>\<open>float(s)\<close>, as \<^verbatim>\<open>astype(float)\<close> applies it to a string cell,
    \<open>None\<close> when it raises;
  \<^item> \<open>pd_to_numeric\<close>: what \<^verbatim>\<open>pd.to_numeric(..., errors="coerce")\<close> makes of a
    string cell, \<^verbatim>\<open>NaN\<close> when the text is no number;
  \<^item> \<open>pd_sum\<close>: \<^verbatim>\<open>float(column.sum())\<close> on a numeric column, which skips \<^verbatim>\<open>NaN\<close>;
  \<^item> \<open>bytes_decode\<close>: \<^verbatim>\<open>content.decode("utf-8", errors="ignore")\<close>;
  \<^item> \<open>urljoin\<close>: \<^verbatim>\<open>urllib.parse.urljoin\<close>.
\<close>

record pylib =
  json_loads :: "string \<Rightarrow> pydict option"
  json_dumps :: "json \<Rightarrow> string"
  b64decode_utf8 :: "string \<Rightarrow> string option"
  pd_read_html :: "string \<Rightarrow> dataframe list option"
  pd_read_csv :: "string \<Rightarrow> string + dataframe"
  pd_read_excel :: "string \<Rightarrow> string + dataframe"
  float_literal :: "string \<Rightarrow> pyfloat"
  py_sum :: "pyfloat list \<Rightarrow> pyfloat"
  py_float :: "string \<Rightarrow> pyfloat option"
  pd_to_numeric :: "string \<Rightarrow> pyfloat"
  pd_sum :: "pyfloat list \<Rightarrow> pyfloat"
  bytes_decode :: "string \<Rightarrow> string"
  urljoin :: "string \<Rightarrow> string \<Rightarrow> string"

text \<open>
  The remote side: what a call made at a given clock reading returns, and how long the
  call takes. The left summand is the message of the exception the call raises.
  \<^item> \<open>launch\<close>: starting the browser, the context and the page;
  \<^item> \<open>goto\<close>: \<^verbatim>\<open>page.goto\<close>, \<^verbatim>\<open>page.content()\<close> and \<^verbatim>\<open>page.inner_text("body")\<close>,
    giving the markup and the plain text;
  \<^item> \<open>http_get\<close>: \<^verbatim>\<open>fetch_bytes\<close>, that is the GET and \<^verbatim>\<open>raise_for_status\<close>;
  \<^item> \<open>http_post\<close>: \<^verbatim>\<open>http_client.post(submit_url, json=answer_payload)\<close>.
\<close>

record response =
  resp_json :: "json option"
  status_code :: int
  resp_text :: string

record remote =
  launch :: "int \<Rightarrow> (string + unit) \<times> nat"
  goto :: "int \<Rightarrow> string \<Rightarrow> (string + string \<times> string) \<times> nat"
  http_get :: "int \<Rightarrow> string \<Rightarrow> (string + string) \<times> nat"
  http_post :: "int \<Rightarrow> json \<Rightarrow> pydict \<Rightarrow> (string + response) \<times> nat"

datatype event = Goto string | Get string | Post json pydict

text \<open>
  The state the chain acts on: the clock that \<^verbatim>\<open>time.time()\<close> reads, the resources
  the chain holds, and the calls it has made so far.
\<close>

record world =
  clock :: int
  http_client_open :: bool
  page_open :: bool
  context_open :: bool
  browser_open :: bool
  calls :: "event list"

definition tick :: "nat \<Rightarrow> event list \<Rightarrow> world \<Rightarrow> world" where
  "tick d evs w = w\<lparr>clock := clock w + int d, calls := calls w @ evs\<rparr>"

text \<open>
  \<^verbatim>\<open>await http_client.aclose(); await page.close(); await context.close();
  await browser.close()\<close>, the block before each \<^verbatim>\<open>return\<close>.
\<close>

definition close_all :: "world \<Rightarrow> world" where
  "close_all w = w\<lparr>http_client_open := False, page_open := False,
                    context_open := False, browser_open := False\<rparr>"

text \<open>
  Leaving \<^verbatim>\<open>async with async_playwright() as pw\<close>, by a return or by an exception,
  stops the driver and with it the browser, its context and its page.
\<close>

definition playwright_exit :: "world \<Rightarrow> world" where
  "playwright_exit w = w\<lparr>page_open := False, context_open := False, browser_open := False\<rparr>"

record config =
  EMAIL :: string
  TIMEOUT_SECONDS :: int

section \<open>utils: pandas helpers\<close>

text \<open>\<^verbatim>\<open>utils.extract_numbers\<close>: \<^verbatim>\<open>float(m.group())\<close> for every match of \<^verbatim>\<open>number_re\<close>.\<close>

definition extract_numbers :: "pylib \<Rightarrow> string \<Rightarrow> pyfloat list" where
  "extract_numbers lib text = map (float_literal lib) (number_tokens text)"

text \<open>\<^verbatim>\<open>df[col].astype(float)\<close>; \<open>None\<close> when the conversion of a cell raises.\<close>

fun astype_float :: "(string \<Rightarrow> pyfloat option) \<Rightarrow> cell list \<Rightarrow> pyfloat list option" where
  "astype_float f [] = Some []"
| "astype_float f (CNum x # cs) = map_option (\<lambda>xs. x # xs) (astype_float f cs)"
| "astype_float f (CStr s # cs) =
     (case f s of None \<Rightarrow> None | Some x \<Rightarrow> map_option (\<lambda>xs. x # xs) (astype_float f cs))"

text \<open>
  \<^verbatim>\<open>pd.to_numeric(column, errors="coerce")\<close> on one cell, and
  \<^verbatim>\<open>float(pd.to_numeric(column, errors="coerce").sum())\<close>.
\<close>

fun coerce_cell :: "(string \<Rightarrow> pyfloat) \<Rightarrow> cell \<Rightarrow> pyfloat" where
  "coerce_cell f (CNum x) = x"
| "coerce_cell f (CStr s) = f s"

definition coerce_sum :: "pylib \<Rightarrow> cell list \<Rightarrow> pyfloat" where
  "coerce_sum lib cells = pd_sum lib (map (coerce_cell (pd_to_numeric lib)) cells)"

text \<open>\<^verbatim>\<open>column.str.replace(r"[^\d\.\-]", "", regex=True)\<close>: a cell that is not a string becomes \<^verbatim>\<open>NaN\<close>.\<close>

fun str_replace_cell :: "cell \<Rightarrow> cell" where
  "str_replace_cell (CStr s) = CStr (filter (\<lambda>c. is_digit c \<or> c = CHR ''.'' \<or> c = CHR ''-'') s)"
| "str_replace_cell (CNum x) = CNum NaN"

text \<open>The branch \<^verbatim>\<open>if col_name in df.columns\<close> of \<^verbatim>\<open>sum_dataframe_column\<close>, on the column's cells.\<close>

definition sum_named_column :: "pylib \<Rightarrow> cell list \<Rightarrow> pyfloat" where
  "sum_named_column lib cells =
     (case astype_float (py_float lib) cells of
        Some xs \<Rightarrow> pd_sum lib xs
      | None \<Rightarrow> coerce_sum lib (map str_replace_cell cells))"

fun is_int_label :: "label \<Rightarrow> bool" where
  "is_int_label (LInt i) = True"
| "is_int_label (LStr s) = False"

fun label_lower_is :: "string \<Rightarrow> label \<times> cell list \<Rightarrow> bool" where
  "label_lower_is l (LStr s, cells) = (lower s = l)"
| "label_lower_is l (LInt i, cells) = False"

text \<open>
  \<^verbatim>\<open>sum_dataframe_column\<close>. The dict comprehension \<^verbatim>\<open>{c.lower(): c for c in df.columns}\<close>
  raises on a label that is not a string; among the labels with the same lower-case
  form the last one stays in the dict. The recursive call is made with a label of the
  frame, so it takes the first branch.
\<close>

definition sum_dataframe_column :: "pylib \<Rightarrow> dataframe \<Rightarrow> string \<Rightarrow> exn + pyfloat option" where
  "sum_dataframe_column lib df col_name =
     (case map_of df (LStr col_name) of
        Some cells \<Rightarrow> Inr (Some (sum_named_column lib cells))
      | None \<Rightarrow>
          if list_ex (\<lambda>(c, cells). is_int_label c) df then Inl AttributeError
          else (case find (label_lower_is (lower col_name)) (rev df) of
                  None \<Rightarrow> Inr None
                | Some (c, _) \<Rightarrow>
                    (case map_of df c of
                       Some cells \<Rightarrow> Inr (Some (sum_named_column lib cells))
                     | None \<Rightarrow> Inr None)))"

definition parse_table_html_to_df :: "pylib \<Rightarrow> string \<Rightarrow> dataframe option" where
  "parse_table_html_to_df lib html =
     (case pd_read_html lib html of
        None \<Rightarrow> None
      | Some [] \<Rightarrow> None
      | Some (df # _) \<Rightarrow> Some df)"

definition decode_base64_block :: "pylib \<Rightarrow> string \<Rightarrow> string option" where
  "decode_base64_block lib text =
     (case find_b64_run text of
        None \<Rightarrow> None
      | Some run \<Rightarrow> b64decode_utf8 lib (filter (\<lambda>c. \<not> is_space c) run))"

section \<open>utils.try\_parse\_json\_from\_text\<close>

text \<open>
  \<^verbatim>\<open>json.loads\<close> is a parameter. Every candidate handed to it starts with an opening
  brace, where a successful parse is always an object, so the parameter returns the
  parsed \<^verbatim>\<open>dict\<close>, and \<open>None\<close> when \<^verbatim>\<open>json.loads\<close> raises. The function itself
  returns that \<^verbatim>\<open>dict\<close> or Python's \<^verbatim>\<open>None\<close>, here \<open>Some obj\<close> or \<open>None\<close>.

  The loop \<^verbatim>\<open>for end in range(len(text), start, -1)\<close> is the recursion of \<open>scan_ends\<close>
  on \<open>end - start\<close>, counting down to 1.
\<close>

fun scan_ends :: "(string \<Rightarrow> pydict option) \<Rightarrow> string \<Rightarrow> nat \<Rightarrow> nat \<Rightarrow> pydict option" where
  "scan_ends loads text start 0 = None"
| "scan_ends loads text start (Suc k) =
     (case loads (slice text start (start + Suc k)) of
        Some obj \<Rightarrow> Some obj
      | None \<Rightarrow> scan_ends loads text start k)"

definition try_parse_json_from_text :: "(string \<Rightarrow> pydict option) \<Rightarrow> string \<Rightarrow> pydict option" where
  "try_parse_json_from_text loads text =
     (case find_char (CHR ''{'') text of
        None \<Rightarrow> None
      | Some start \<Rightarrow> scan_ends loads text start (length text - start))"

section \<open>worker.solve\_quiz\_chain: the signals read from a page\<close>

text \<open>Truth value of an optional dict and of an optional string.\<close>

definition truthy_dict :: "pydict option \<Rightarrow> bool" where
  "truthy_dict d = (case d of None \<Rightarrow> False | Some kvs \<Rightarrow> kvs \<noteq> [])"

definition truthy_str :: "string option \<Rightarrow> bool" where
  "truthy_str s = (case s of None \<Rightarrow> False | Some t \<Rightarrow> t \<noteq> [])"

text \<open>
  Lines 52 to 61: the candidates are the URLs of the plain text of the page body; the
  first one that contains \<^verbatim>\<open>submit\<close> or \<^verbatim>\<open>answer\<close> is taken, else the first one.
\<close>

definition is_submit_like :: "string \<Rightarrow> bool" where
  "is_submit_like c =
     (contains c ''submit'' \<or> contains (lower c) ''submit'' \<or> contains (lower c) ''answer'')"

definition guess_submit_url :: "string \<Rightarrow> json" where
  "guess_submit_url page_plain =
     (case find_urls page_plain of
        [] \<Rightarrow> JNull
      | c0 # cs \<Rightarrow>
          (case find is_submit_like (c0 # cs) of
             Some c \<Rightarrow> JStr c
           | None \<Rightarrow> JStr c0))"

text \<open>Line 43: \<^verbatim>\<open>try_parse_json_from_text(page_plain) or try_parse_json_from_text(page_text)\<close>.\<close>

definition parse_page_json :: "pylib \<Rightarrow> string \<Rightarrow> string \<Rightarrow> pydict option" where
  "parse_page_json lib page_text page_plain =
     (if truthy_dict (try_parse_json_from_text (json_loads lib) page_plain)
      then try_parse_json_from_text (json_loads lib) page_plain
      else try_parse_json_from_text (json_loads lib) page_text)"

text \<open>Line 46: \<^verbatim>\<open>decode_base64_block(page_plain) or decode_base64_block(page_text)\<close>.\<close>

definition decode_page_blob :: "pylib \<Rightarrow> string \<Rightarrow> string \<Rightarrow> string option" where
  "decode_page_blob lib page_text page_plain =
     (if truthy_str (decode_base64_block lib page_plain)
      then decode_base64_block lib page_plain
      else decode_base64_block lib page_text)"

text \<open>Line 64: the condition under which \<^verbatim>\<open>parsed_json\<close> becomes the template.\<close>

definition mentions_submit :: "pylib \<Rightarrow> pydict option \<Rightarrow> bool" where
  "mentions_submit lib parsed =
     (case parsed of
        None \<Rightarrow> False
      | Some kvs \<Rightarrow> kvs \<noteq> [] \<and> contains (lower (json_dumps lib (JObj kvs))) ''submit'')"

text \<open>Line 71: \<^verbatim>\<open>jsn and all(k in jsn for k in ("email", "secret", "url"))\<close>.\<close>

definition has_payload_keys :: "pydict option \<Rightarrow> bool" where
  "has_payload_keys jsn =
     (case jsn of
        None \<Rightarrow> False
      | Some kvs \<Rightarrow> kvs \<noteq> [] \<and> has_key kvs ''email'' \<and> has_key kvs ''secret'' \<and> has_key kvs ''url'')"

text \<open>Lines 63 to 73: \<^verbatim>\<open>submit_payload_template\<close>.\<close>

definition detect_template :: "pylib \<Rightarrow> string \<Rightarrow> string \<Rightarrow> pydict option" where
  "detect_template lib page_text page_plain =
     (if has_payload_keys (try_parse_json_from_text (json_loads lib) page_plain)
      then try_parse_json_from_text (json_loads lib) page_plain
      else if mentions_submit lib (parse_page_json lib page_text page_plain)
      then parse_page_json lib page_text page_plain
      else None)"

text \<open>Lines 49 to 73: \<^verbatim>\<open>submit_url\<close> before the answer is computed.\<close>

definition early_submit_url :: "pylib \<Rightarrow> string \<Rightarrow> json" where
  "early_submit_url lib page_plain =
     (case try_parse_json_from_text (json_loads lib) page_plain of
        None \<Rightarrow> guess_submit_url page_plain
      | Some jsn \<Rightarrow>
          if has_payload_keys (Some jsn)
          then py_or (dict_get_default jsn ''submit'' (guess_submit_url page_plain))
                     (dict_get_default jsn ''url'' (guess_submit_url page_plain))
          else guess_submit_url page_plain)"

text \<open>Lines 254 to 258: the template's \<^verbatim>\<open>submit\<close> or \<^verbatim>\<open>url\<close> replaces \<^verbatim>\<open>submit_url\<close> when it is true.\<close>

definition final_submit_url :: "pydict option \<Rightarrow> json \<Rightarrow> json" where
  "final_submit_url tmpl submit_url =
     (case tmpl of
        None \<Rightarrow> submit_url
      | Some t \<Rightarrow>
          if t = [] then submit_url
          else if truthy (py_or (dict_get t ''submit'') (dict_get t ''url''))
          then py_or (dict_get t ''submit'') (dict_get t ''url'')
          else submit_url)"

section \<open>worker.solve\_quiz\_chain: computing the answer\<close>

text \<open>
  The locals the answer blocks read and write: \<^verbatim>\<open>answer\<close>, the two entries of
  \<^verbatim>\<open>answer_meta\<close>, and \<^verbatim>\<open>colname\<close>, which exists (\<open>Some\<close>) once the question of
  block 1 has matched, in this iteration or in an earlier one of the same chain.
\<close>

record rstate =
  answer :: json
  meta_method :: "string option"
  meta_file_error :: "exn option"
  colname :: "string option"

type_synonym step = "rstate \<Rightarrow> world \<Rightarrow> (exn + rstate) \<times> world"

definition fetch_bytes :: "remote \<Rightarrow> string \<Rightarrow> world \<Rightarrow> (string + string) \<times> world" where
  "fetch_bytes R url w =
     (case http_get R (clock w) url of (res, d) \<Rightarrow> (res, tick d [Get url] w))"

text \<open>Block 1, lines 80 to 89.\<close>

definition step1_table_sum :: "pylib \<Rightarrow> string \<Rightarrow> string \<Rightarrow> step" where
  "step1_table_sum lib page_text page_plain st w =
     (case search_column_question page_plain of
        None \<Rightarrow> (Inr st, w)
      | Some g \<Rightarrow>
          (case parse_table_html_to_df lib page_text of
             None \<Rightarrow> (Inr (st\<lparr>colname := Some (strip g)\<rparr>), w)
           | Some df \<Rightarrow>
               (case sum_dataframe_column lib df (strip g) of
                  Inl e \<Rightarrow> (Inl e, w)
                | Inr None \<Rightarrow> (Inr (st\<lparr>colname := Some (strip g)\<rparr>), w)
                | Inr (Some s) \<Rightarrow>
                    (Inr (st\<lparr>colname := Some (strip g), answer := JFloat s,
                              meta_method := Some ''html-table-sum''\<rparr>), w))))"

text \<open>
  The loop \<^verbatim>\<open>for c in df.columns: try: s = float(pd.to_numeric(df[c],
  errors='coerce').sum()) ... break except Exception: continue\<close>.
\<close>

definition to_numeric_sum :: "pylib \<Rightarrow> cell list \<Rightarrow> exn + pyfloat" where
  "to_numeric_sum lib cells = Inr (coerce_sum lib cells)"

fun first_numeric :: "pylib \<Rightarrow> dataframe \<Rightarrow> (pyfloat \<times> label) option" where
  "first_numeric lib [] = None"
| "first_numeric lib ((c, cells) # rest) =
     (case to_numeric_sum lib cells of
        Inr s \<Rightarrow> Some (s, c)
      | Inl e \<Rightarrow> first_numeric lib rest)"

fun label_str :: "label \<Rightarrow> string" where
  "label_str (LStr s) = s"
| "label_str (LInt i) = int_str i"

text \<open>
  Lines 112 to 127 for a CSV file and 130 to 143 for an Excel file, which differ in the
  two method tags only.
\<close>

definition tabular_answer ::
  "pylib \<Rightarrow> string option \<Rightarrow> dataframe \<Rightarrow> string \<Rightarrow> string \<Rightarrow> exn + (json \<times> string) option" where
  "tabular_answer lib cn df tag_sum tag_first =
     (case cn of
        Some name \<Rightarrow>
          (case sum_dataframe_column lib df name of
             Inl e \<Rightarrow> Inl e
           | Inr None \<Rightarrow> Inr None
           | Inr (Some s) \<Rightarrow> Inr (Some (JFloat s, tag_sum)))
      | None \<Rightarrow>
          (case first_numeric lib df of
             None \<Rightarrow> Inr None
           | Some (s, c) \<Rightarrow> Inr (Some (JFloat s, tag_first @ label_str c))))"

text \<open>
  Lines 110 to 168, the body of the \<^verbatim>\<open>try\<close> after the fetch. In the PDF branch
  \<^verbatim>\<open>io.BytesIO\<close> raises \<^verbatim>\<open>NameError\<close>, the module \<^verbatim>\<open>io\<close> not being imported in
  \<^verbatim>\<open>worker.py\<close>, so the text is always the decoded content.
\<close>

definition analyse_file ::
  "pylib \<Rightarrow> string option \<Rightarrow> string \<Rightarrow> string \<Rightarrow> exn + (json \<times> string) option" where
  "analyse_file lib cn file_link content =
     (if endswith (lower file_link) ''.csv'' then
        (case pd_read_csv lib content of
           Inl m \<Rightarrow> Inl (LibraryError m)
         | Inr df \<Rightarrow> tabular_answer lib cn df ''csv-sum'' ''csv-first-numeric:'')
      else if endswith (lower file_link) ''.xls'' \<or> endswith (lower file_link) ''.xlsx'' then
        (case pd_read_excel lib content of
           Inl m \<Rightarrow> Inl (LibraryError m)
         | Inr df \<Rightarrow> tabular_answer lib cn df ''excel-sum'' ''excel-first-numeric:'')
      else if endswith (lower file_link) ''.pdf'' then
        (if extract_numbers lib (bytes_decode lib content) = [] then Inr None
         else Inr (Some (JFloat (py_sum lib (extract_numbers lib (bytes_decode lib content))),
                         if cn \<noteq> None then ''pdf-sum-heuristic'' else ''pdf-sum-all-numbers'')))
      else Inr None)"

text \<open>Lines 94 to 107: the first link with a file extension, made absolute.\<close>

definition is_file_link :: "string \<Rightarrow> bool" where
  "is_file_link L =
     (contains (lower L) ''.pdf'' \<or> contains (lower L) ''.csv'' \<or> contains (lower L) ''.xls''
      \<or> contains (lower L) ''.xlsx'')"

definition absolute_link :: "pylib \<Rightarrow> string \<Rightarrow> string \<Rightarrow> string" where
  "absolute_link lib current_url file_link =
     (let l1 = (if startswith file_link ''//'' then ''https:'' @ file_link else file_link)
      in if startswith l1 ''/'' then urljoin lib current_url l1 else l1)"

text \<open>Block 2, lines 92 to 170.\<close>

definition step2_linked_file :: "pylib \<Rightarrow> remote \<Rightarrow> string \<Rightarrow> string \<Rightarrow> step" where
  "step2_linked_file lib R current_url page_text st w =
     (if answer st = JNull then
        (case find is_file_link (find_hrefs page_text) of
           None \<Rightarrow> (Inr st, w)
         | Some link \<Rightarrow>
             (case fetch_bytes R (absolute_link lib current_url link) w of
                (Inl m, w') \<Rightarrow> (Inr (st\<lparr>meta_file_error := Some (LibraryError m)\<rparr>), w')
              | (Inr content, w') \<Rightarrow>
                  (case analyse_file lib (colname st) (absolute_link lib current_url link) content of
                     Inl e \<Rightarrow> (Inr (st\<lparr>meta_file_error := Some e\<rparr>), w')
                   | Inr None \<Rightarrow> (Inr st, w')
                   | Inr (Some (a, m)) \<Rightarrow> (Inr (st\<lparr>answer := a, meta_method := Some m\<rparr>), w'))))
      else (Inr st, w))"

text \<open>Block 3, lines 173 to 179.\<close>

definition step3_inline_sum :: "pylib \<Rightarrow> string \<Rightarrow> step" where
  "step3_inline_sum lib page_plain st w =
     (if answer st = JNull then
        (if contains (lower page_plain) ''sum of'' \<or> contains (lower page_plain) ''what is the sum''
         then (if extract_numbers lib page_plain = [] then (Inr st, w)
               else (Inr (st\<lparr>answer := JFloat (py_sum lib (extract_numbers lib page_plain)),
                              meta_method := Some ''sum-inline-numbers''\<rparr>), w))
         else (Inr st, w))
      else (Inr st, w))"

text \<open>\<^verbatim>\<open>isinstance(v, (int, float, str))\<close>; a \<^verbatim>\<open>bool\<close> is an \<^verbatim>\<open>int\<close>.\<close>

fun is_scalar :: "json \<Rightarrow> bool" where
  "is_scalar (JBool b) = True"
| "is_scalar (JInt i) = True"
| "is_scalar (JFloat f) = True"
| "is_scalar (JStr s) = True"
| "is_scalar v = False"

text \<open>
  Block 4, lines 182 to 204. \<^verbatim>\<open>payload.get("url", "").endswith(...)\<close> is evaluated
  outside the \<^verbatim>\<open>try\<close> and raises when the value under \<^verbatim>\<open>url\<close> is not a string. Inside
  the \<^verbatim>\<open>try\<close> every exception is dropped.
\<close>

definition template_file_answer :: "pylib \<Rightarrow> remote \<Rightarrow> string \<Rightarrow> step" where
  "template_file_answer lib R url st w =
     (case fetch_bytes R url w of
        (Inl m, w') \<Rightarrow> (Inr st, w')
      | (Inr c, w') \<Rightarrow>
          if endswith url ''.csv'' then
            (case pd_read_csv lib c of
               Inl m \<Rightarrow> (Inr st, w')
             | Inr df \<Rightarrow>
                 (case first_numeric lib df of
                    None \<Rightarrow> (Inr st, w')
                  | Some (s, col) \<Rightarrow>
                      (Inr (st\<lparr>answer := JFloat s,
                               meta_method := Some (''template-csv-first-num:'' @ label_str col)\<rparr>), w')))
          else (Inr st, w'))"

definition step4_template :: "pylib \<Rightarrow> remote \<Rightarrow> pydict option \<Rightarrow> step" where
  "step4_template lib R tmpl st w =
     (if answer st = JNull \<and> truthy_dict tmpl then
        (case tmpl of
           None \<Rightarrow> (Inr st, w)
         | Some payload \<Rightarrow>
             if has_key payload ''answer'' \<and> is_scalar (dict_get payload ''answer'')
             then (Inr (st\<lparr>answer := dict_get payload ''answer'',
                           meta_method := Some ''from_template''\<rparr>), w)
             else if has_key payload ''url'' then
               (case dict_get payload ''url'' of
                  JStr url \<Rightarrow>
                    if endswith url ''.csv'' \<or> endswith url ''.pdf'' \<or> endswith url ''.xlsx''
                    then template_file_answer lib R url st w
                    else (Inr st, w)
                | _ \<Rightarrow> (Inl AttributeError, w))
             else (Inr st, w))
      else (Inr st, w))"

text \<open>Block 5, lines 207 to 218.\<close>

definition step5_decoded :: "pylib \<Rightarrow> string option \<Rightarrow> step" where
  "step5_decoded lib dec st w =
     (if answer st = JNull \<and> truthy_str dec then
        (case dec of
           None \<Rightarrow> (Inr st, w)
         | Some d \<Rightarrow>
             (case try_parse_json_from_text (json_loads lib) d of
                Some js \<Rightarrow>
                  if js \<noteq> [] \<and> has_key js ''answer''
                  then (Inr (st\<lparr>answer := dict_get js ''answer'',
                                meta_method := Some ''decoded-json''\<rparr>), w)
                  else if extract_numbers lib d = [] then (Inr st, w)
                  else (Inr (st\<lparr>answer := JFloat (py_sum lib (extract_numbers lib d)),
                                 meta_method := Some ''decoded-sum''\<rparr>), w)
              | None \<Rightarrow>
                  if extract_numbers lib d = [] then (Inr st, w)
                  else (Inr (st\<lparr>answer := JFloat (py_sum lib (extract_numbers lib d)),
                                 meta_method := Some ''decoded-sum''\<rparr>), w)))
      else (Inr st, w))"

text \<open>Block 6, lines 221 to 225.\<close>

definition step6_fallback :: "pylib \<Rightarrow> string \<Rightarrow> step" where
  "step6_fallback lib page_plain st w =
     (if answer st = JNull then
        (if extract_numbers lib page_plain = [] then (Inr st, w)
         else (Inr (st\<lparr>answer := JFloat (py_sum lib (extract_numbers lib page_plain)),
                        meta_method := Some ''fallback-sum-page''\<rparr>), w))
      else (Inr st, w))"

text \<open>One block after the other; an exception that a block lets through ends the run.\<close>

definition and_then :: "(exn + rstate) \<times> world \<Rightarrow> step \<Rightarrow> (exn + rstate) \<times> world" where
  "and_then r f = (case r of (Inl e, w) \<Rightarrow> (Inl e, w) | (Inr st, w) \<Rightarrow> f st w)"

text \<open>A page as the answer blocks see it.\<close>

record page =
  current_url :: string
  page_text :: string
  page_plain :: string

text \<open>Lines 76 to 225: \<^verbatim>\<open>answer\<close> and \<^verbatim>\<open>answer_meta\<close> start empty, \<^verbatim>\<open>colname\<close> is carried over.\<close>

definition initial_rstate :: "string option \<Rightarrow> rstate" where
  "initial_rstate cn = \<lparr>answer = JNull, meta_method = None, meta_file_error = None, colname = cn\<rparr>"

definition resolve_answer ::
  "pylib \<Rightarrow> remote \<Rightarrow> page \<Rightarrow> pydict option \<Rightarrow> string option \<Rightarrow> step" where
  "resolve_answer lib R p tmpl dec st w =
     and_then (and_then (and_then (and_then (and_then
       (step1_table_sum lib (page_text p) (page_plain p) st w)
       (step2_linked_file lib R (current_url p) (page_text p)))
       (step3_inline_sum lib (page_plain p)))
       (step4_template lib R tmpl))
       (step5_decoded lib dec))
       (step6_fallback lib (page_plain p))"

section \<open>worker.solve\_quiz\_chain: payload, submission and the loop\<close>

text \<open>Lines 228 to 246: the payload built from the answer.\<close>

definition build_payload :: "config \<Rightarrow> string \<Rightarrow> string \<Rightarrow> rstate \<Rightarrow> pydict" where
  "build_payload cfg provided_secret cur st =
     (if answer st = JNull then
        [(''email'', JStr (EMAIL cfg)), (''secret'', JStr provided_secret), (''url'', JStr cur),
         (''answer'', JNull), (''note'', JStr ''unable to parse task automatically'')]
      else
        [(''email'', JStr (EMAIL cfg)), (''secret'', JStr provided_secret), (''url'', JStr cur),
         (''answer'', answer st),
         (''_meta'', JObj [(''method'', (case meta_method st of None \<Rightarrow> JNull | Some m \<Rightarrow> JStr m)),
                          (''raw_page_sample'', JNull)])])"

text \<open>\<^verbatim>\<open>base.update(d)\<close>: the entries of \<open>d\<close> in order, each replacing or extending.\<close>

definition dict_update :: "pydict \<Rightarrow> pydict \<Rightarrow> pydict" where
  "dict_update base d = foldl (\<lambda>acc (k, v). AList.update k v acc) base d"

text \<open>Lines 249 to 252: merging with the template.\<close>

definition merge_template :: "pydict option \<Rightarrow> pydict \<Rightarrow> pydict" where
  "merge_template tmpl answer_payload =
     (case tmpl of
        None \<Rightarrow> answer_payload
      | Some base \<Rightarrow>
          if base = [] then answer_payload
          else dict_update base (filter (\<lambda>(k, v). v \<noteq> JNull) answer_payload))"

text \<open>Lines 272 to 280: the response body as data, and the continuation URL read from it.\<close>

definition response_body :: "response \<Rightarrow> json" where
  "response_body r =
     (case resp_json r of
        Some j \<Rightarrow> j
      | None \<Rightarrow> JObj [(''status_code'', JInt (status_code r)), (''text'', JStr (resp_text r))])"

definition next_url_of :: "json \<Rightarrow> json" where
  "next_url_of body =
     (case body of
        JObj d \<Rightarrow> py_or (dict_get d ''url'') (dict_get d ''next'')
      | _ \<Rightarrow> JNull)"

text \<open>
  What one pass through the loop body ends with: \<open>Continue\<close> is the \<^verbatim>\<open>continue\<close> of
  line 284, with the new \<^verbatim>\<open>current_url\<close>, \<^verbatim>\<open>colname\<close> and \<^verbatim>\<open>last_response\<close>; \<open>Return\<close> is
  a \<^verbatim>\<open>return\<close> of the dict given.
\<close>

datatype flow = Continue json "string option" json | Return pydict

text \<open>Lines 260 to 297: from the payload to the end of the loop body.\<close>

definition submit ::
  "remote \<Rightarrow> string \<Rightarrow> json \<Rightarrow> pydict \<Rightarrow> string option \<Rightarrow> world \<Rightarrow> flow \<times> world" where
  "submit R cur submit_url answer_payload cn w =
     (if \<not> truthy submit_url then
        (Return [(''success'', JBool False), (''reason'', JStr ''No submit URL found on page''),
                 (''page_url'', JStr cur), (''payload_tried'', JObj answer_payload)],
         close_all w)
      else
        (case http_post R (clock w) submit_url answer_payload of
           (Inl m, d) \<Rightarrow>
             (Return [(''success'', JBool False),
                      (''reason'', JStr (''failed to submit answer: '' @ m)),
                      (''payload_tried'', JObj answer_payload)],
              close_all (tick d [Post submit_url answer_payload] w))
         | (Inr r, d) \<Rightarrow>
             if truthy (next_url_of (response_body r))
             then (Continue (next_url_of (response_body r)) cn (response_body r),
                   tick d [Post submit_url answer_payload] w)
             else (Return [(''success'', JBool True), (''final_response'', response_body r),
                           (''submitted'', JObj answer_payload)],
                   close_all (tick d [Post submit_url answer_payload] w))))"

text \<open>Lines 43 to 297, after the page has been loaded.\<close>

definition process_page ::
  "pylib \<Rightarrow> remote \<Rightarrow> config \<Rightarrow> string \<Rightarrow> page \<Rightarrow> string option \<Rightarrow> world \<Rightarrow> (exn + flow) \<times> world" where
  "process_page lib R cfg provided_secret p cn w =
     (case resolve_answer lib R p
             (detect_template lib (page_text p) (page_plain p))
             (decode_page_blob lib (page_text p) (page_plain p))
             (initial_rstate cn) w of
        (Inl e, w') \<Rightarrow> (Inl e, w')
      | (Inr st, w') \<Rightarrow>
          (case submit R (current_url p)
                  (final_submit_url (detect_template lib (page_text p) (page_plain p))
                     (early_submit_url lib (page_plain p)))
                  (merge_template (detect_template lib (page_text p) (page_plain p))
                     (build_payload cfg provided_secret (current_url p) st))
                  (colname st) w' of
             (fl, w'') \<Rightarrow> (Inr fl, w'')))"

text \<open>Lines 38 to 297: one pass through the loop body.\<close>

definition iteration ::
  "pylib \<Rightarrow> remote \<Rightarrow> config \<Rightarrow> string \<Rightarrow> string \<Rightarrow> string option \<Rightarrow> world \<Rightarrow> (exn + flow) \<times> world" where
  "iteration lib R cfg provided_secret cur cn w =
     (case goto R (clock w) cur of
        (Inl m, d) \<Rightarrow> (Inl (LibraryError m), tick d [Goto cur] w)
      | (Inr (ptext, pplain), d) \<Rightarrow>
          process_page lib R cfg provided_secret
            \<lparr>current_url = cur, page_text = ptext, page_plain = pplain\<rparr> cn (tick d [Goto cur] w))"

text \<open>Lines 299 to 304: the return after the loop.\<close>

definition timeout_result :: "json \<Rightarrow> pydict" where
  "timeout_result last_response =
     [(''success'', JBool False), (''reason'', JStr ''timeout or loop ended''),
      (''last_response'', last_response)]"

text \<open>
  The loop of line 37, \<^verbatim>\<open>while current_url and time.time() < deadline\<close>. The first
  argument bounds the number of times the condition is evaluated; \<open>None\<close> means that the
  bound was reached. \<^verbatim>\<open>current_url\<close> is a JSON value, since line 283 assigns to it
  whatever the response holds; \<^verbatim>\<open>page.goto\<close> raises on a value that is not a string.
\<close>

fun chain_loop ::
  "nat \<Rightarrow> pylib \<Rightarrow> remote \<Rightarrow> config \<Rightarrow> string \<Rightarrow> int \<Rightarrow> json \<Rightarrow> string option \<Rightarrow> json \<Rightarrow> world
   \<Rightarrow> ((exn + pydict) \<times> world) option" where
  "chain_loop 0 lib R cfg provided_secret deadline cur cn last_response w = None"
| "chain_loop (Suc n) lib R cfg provided_secret deadline cur cn last_response w =
     (if truthy cur \<and> clock w < deadline then
        (case cur of
           JStr u \<Rightarrow>
             (case iteration lib R cfg provided_secret u cn w of
                (Inl e, w') \<Rightarrow> Some (Inl e, w')
              | (Inr (Return res), w') \<Rightarrow> Some (Inr res, w')
              | (Inr (Continue nxt cn' resp), w') \<Rightarrow>
                  chain_loop n lib R cfg provided_secret deadline nxt cn' resp w')
         | _ \<Rightarrow> Some (Inl (LibraryError ''page.goto: url is not a string''), w))
      else Some (Inr (timeout_result last_response), close_all w))"

text \<open>
  \<^verbatim>\<open>solve_quiz_chain\<close>, lines 28 to 304. The deadline is fixed before the browser is
  started; the resources are acquired, the loop runs, and the \<^verbatim>\<open>async with\<close> block is
  left.
\<close>

definition acquire :: "world \<Rightarrow> world" where
  "acquire w = w\<lparr>http_client_open := True, page_open := True,
                  context_open := True, browser_open := True\<rparr>"

definition solve_quiz_chain ::
  "nat \<Rightarrow> pylib \<Rightarrow> remote \<Rightarrow> config \<Rightarrow> json \<Rightarrow> string \<Rightarrow> world \<Rightarrow> ((exn + pydict) \<times> world) option" where
  "solve_quiz_chain fuel lib R cfg start_url provided_secret w =
     (case launch R (clock w) of
        (Inl m, d) \<Rightarrow> Some (Inl (LibraryError m), playwright_exit (tick d [] w))
      | (Inr u, d) \<Rightarrow>
          (case chain_loop fuel lib R cfg provided_secret (clock w + TIMEOUT_SECONDS cfg)
                  start_url None JNull (acquire (tick d [] w)) of
             None \<Rightarrow> None
           | Some (res, w') \<Rightarrow> Some (res, playwright_exit w')))"

section \<open>The answer blocks as a list\<close>

text \<open>The six blocks in the order of the source, and running a list of blocks in sequence.\<close>

definition answer_steps ::
  "pylib \<Rightarrow> remote \<Rightarrow> page \<Rightarrow> pydict option \<Rightarrow> string option \<Rightarrow> step list" where
  "answer_steps lib R p tmpl dec =
     [step1_table_sum lib (page_text p) (page_plain p),
      step2_linked_file lib R (current_url p) (page_text p),
      step3_inline_sum lib (page_plain p),
      step4_template lib R tmpl,
      step5_decoded lib dec,
      step6_fallback lib (page_plain p)]"

fun run_steps :: "step list \<Rightarrow> step" where
  "run_steps [] st w = (Inr st, w)"
| "run_steps (f # fs) st w = and_then (f st w) (run_steps fs)"

text \<open>The method tags that each block writes, by the position of the block in the list.\<close>

fun method_of_step :: "nat \<Rightarrow> string \<Rightarrow> bool" where
  "method_of_step 0 m = (m = ''html-table-sum'')"
| "method_of_step (Suc 0) m =
     (m = ''csv-sum'' \<or> m = ''excel-sum'' \<or> m = ''pdf-sum-heuristic'' \<or> m = ''pdf-sum-all-numbers''
      \<or> startswith m ''csv-first-numeric:'' \<or> startswith m ''excel-first-numeric:'')"
| "method_of_step (Suc (Suc 0)) m = (m = ''sum-inline-numbers'')"
| "method_of_step (Suc (Suc (Suc 0))) m =
     (m = ''from_template'' \<or> startswith m ''template-csv-first-num:'')"
| "method_of_step (Suc (Suc (Suc (Suc 0)))) m = (m = ''decoded-json'' \<or> m = ''decoded-sum'')"
| "method_of_step k m = (m = ''fallback-sum-page'')"

section \<open>Predicates used in the statements\<close>

text \<open>The calls a world has recorded beyond those of an earlier world are all file fetches.\<close>

fun is_get :: "event \<Rightarrow> bool" where
  "is_get (Get u) = True"
| "is_get e = False"

definition only_gets :: "world \<Rightarrow> world \<Rightarrow> bool" where
  "only_gets w w' = (\<exists>evs. calls w' = calls w @ evs \<and> list_all is_get evs)"

text \<open>A payload carries the operator's email, the caller's secret and a page URL.\<close>

definition has_identity_fields :: "config \<Rightarrow> string \<Rightarrow> pydict \<Rightarrow> bool" where
  "has_identity_fields cfg provided_secret payload =
     (map_of payload ''email'' = Some (JStr (EMAIL cfg)) \<and>
      map_of payload ''secret'' = Some (JStr provided_secret) \<and>
      (\<exists>u. map_of payload ''url'' = Some (JStr u)))"

text \<open>A block that leaves everything as it is once the answer is set.\<close>

definition guarded :: "step \<Rightarrow> bool" where
  "guarded f = (\<forall>st w. answer st \<noteq> JNull \<longrightarrow> f st w = (Inr st, w))"

text \<open>Every resource of the chain has been released.\<close>

definition all_released :: "world \<Rightarrow> bool" where
  "all_released w =
     (\<not> http_client_open w \<and> \<not> page_open w \<and> \<not> context_open w \<and> \<not> browser_open w)"

section \<open>Concrete library behaviour used at concrete inputs\<close>

text \<open>
  The library functions and a remote side for the concrete runs below. Each function
  agrees with the library on the inputs that the runs hand to it: \<^verbatim>\<open>json.loads\<close>,
  \<^verbatim>\<open>json.dumps\<close> and the pandas readers are tables of those inputs, numbers are read in
  plain decimal notation and summed exactly, the fetched bytes are ASCII, and no run reaches
  \<^verbatim>\<open>base64.b64decode\<close>, \<^verbatim>\<open>pd.read_excel\<close> or \<^verbatim>\<open>urljoin\<close>.
\<close>

definition fixture_loads :: "string \<Rightarrow> pydict option" where
  \<open>fixture_loads s = map_of
     [(''{"a": 1}'', [(''a'', JInt 1)]),
      (''{"submit": "https://q/s"}'', [(''submit'', JStr ''https://q/s'')]),
      (''{"email": "e", "secret": "k", "url": null}'',
         [(''email'', JStr ''e''), (''secret'', JStr ''k''), (''url'', JNull)]),
      (''{"email": "e", "secret": "k", "url": ""}'',
         [(''email'', JStr ''e''), (''secret'', JStr ''k''), (''url'', JStr [])]),
      (''{"email": "e", "secret": "k", "url": "", "submit": null}'',
         [(''email'', JStr ''e''), (''secret'', JStr ''k''), (''url'', JStr []),
          (''submit'', JNull)])] s\<close>

definition fixture_dumps :: "json \<Rightarrow> string" where
  \<open>fixture_dumps j =
     (if j = JObj [(''submit'', JStr ''https://q/s'')] then ''{"submit": "https://q/s"}''
      else if j = JObj [(''a'', JInt 1)] then ''{"a": 1}''
      else if j = JObj [(''email'', JStr ''e''), (''secret'', JStr ''k''), (''url'', JNull)]
        then ''{"email": "e", "secret": "k", "url": null}''
      else if j = JObj [(''email'', JStr ''e''), (''secret'', JStr ''k''), (''url'', JStr [])]
        then ''{"email": "e", "secret": "k", "url": ""}''
      else if j = JObj [(''email'', JStr ''e''), (''secret'', JStr ''k''), (''url'', JStr []),
                        (''submit'', JNull)]
        then ''{"email": "e", "secret": "k", "url": "", "submit": null}''
      else [])\<close>

text \<open>The value of a text in plain decimal notation, \<open>None\<close> for any other text.\<close>

definition digit_val :: "char \<Rightarrow> nat" where
  "digit_val c = of_char c - 48"

definition digits_val :: "string \<Rightarrow> nat" where
  "digits_val ds = foldl (\<lambda>a c. 10 * a + digit_val c) 0 ds"

definition fixture_unsigned :: "string \<Rightarrow> rat option" where
  "fixture_unsigned s =
     (let ds = takeWhile is_digit s in
      if ds = [] then None
      else (case drop (length ds) s of
              [] \<Rightarrow> Some (of_nat (digits_val ds))
            | c # fs \<Rightarrow>
                if c = CHR ''.'' \<and> fs \<noteq> [] \<and> list_all is_digit fs
                then Some (of_nat (digits_val ds) + of_nat (digits_val fs) / 10 ^ length fs)
                else None))"

definition fixture_decimal :: "string \<Rightarrow> rat option" where
  "fixture_decimal s =
     (case s of
        CHR ''-'' # r \<Rightarrow> map_option uminus (fixture_unsigned r)
      | _ \<Rightarrow> fixture_unsigned s)"

definition fixture_number :: "string \<Rightarrow> pyfloat" where
  "fixture_number s = (case fixture_decimal s of Some r \<Rightarrow> Finite r | None \<Rightarrow> NaN)"

text \<open>The sum of the finite values of a list, exact on the small integers of the runs.\<close>

fun finite_part :: "pyfloat \<Rightarrow> rat" where
  "finite_part (Finite r) = r"
| "finite_part x = 0"

definition fixture_sum :: "pyfloat list \<Rightarrow> pyfloat" where
  "fixture_sum xs = Finite (sum_list (map finite_part xs))"

definition fixture_csv :: "string \<Rightarrow> string + dataframe" where
  "fixture_csv content =
     (if content = ''name,value\<newline>a,1\<newline>b,2\<newline>c,3\<newline>''
      then Inr [(LStr ''name'', [CStr ''a'', CStr ''b'', CStr ''c'']),
                (LStr ''value'', [CNum (Finite 1), CNum (Finite 2), CNum (Finite 3)])]
      else Inl ''ParserError'')"

definition fixture_html :: "string \<Rightarrow> dataframe list option" where
  "fixture_html html =
     (if html = ''<p>sum of the value column</p><table><tr><td>1</td><td>2</td></tr></table>''
      then Some [[(LInt 0, [CNum (Finite 1)]), (LInt 1, [CNum (Finite 2)])]]
      else None)"

definition fixture_lib :: pylib where
  "fixture_lib = \<lparr>json_loads = fixture_loads, json_dumps = fixture_dumps,
     b64decode_utf8 = (\<lambda>s. None), pd_read_html = fixture_html, pd_read_csv = fixture_csv,
     pd_read_excel = (\<lambda>s. Inl ''BadZipFile''), float_literal = fixture_number,
     py_sum = fixture_sum, py_float = (\<lambda>s. map_option Finite (fixture_decimal s)),
     pd_to_numeric = fixture_number, pd_sum = fixture_sum,
     bytes_decode = (\<lambda>s. s), urljoin = (\<lambda>base l. l)\<rparr>"

definition fixture_pages :: "(string \<times> (string \<times> string) \<times> nat) list" where
  \<open>fixture_pages =
     [(''https://q/slow'', (''<p>post 7 to https://q/submit</p>'', ''post 7 to https://q/submit''), 500),
      (''https://q/first'', (''<p>1 https://q/submit-first</p>'', ''1 https://q/submit-first''), 200),
      (''https://q/last'', (''<p>3 https://q/submit-last</p>'', ''3 https://q/submit-last''), 1),
      (''https://q/inline'', (''<p>The sum of: 4, 5, 6</p>'', ''The sum of: 4, 5, 6''), 1),
      (''https://q/csv'', (''<a href="https://q/data.csv">data</a> https://q/submit'', ''data https://q/submit''), 1),
      (''https://q/link'', (''<a href="https://q/submit">go</a>'', ''go''), 1),
      (''https://q/table'',
         (''<p>sum of the value column</p><table><tr><td>1</td><td>2</td></tr></table>'',
          ''sum of the value column 1 2''), 1),
      (''https://q/tmpl'', (''{"submit": "https://q/s"}'', ''{"submit": "https://q/s"}''), 1),
      (''https://q/null'', (''{"email": "e", "secret": "k", "url": null}'',
                           ''{"email": "e", "secret": "k", "url": null}''), 1),
      (''https://q/keys'', (''https://q/submit {"email": "e", "secret": "k", "url": ""}'',
                           ''https://q/submit {"email": "e", "secret": "k", "url": ""}''), 1),
      (''https://q/lost'',
         (''https://q/submit {"email": "e", "secret": "k", "url": "", "submit": null}'',
          ''https://q/submit {"email": "e", "secret": "k", "url": "", "submit": null}''), 1)]\<close>

definition fixture_responses :: "(json \<times> json) list" where
  "fixture_responses =
     [(JStr ''https://q/submit'', JObj [(''correct'', JBool True)]),
      (JStr ''https://q/submit-first'', JObj [(''next'', JStr ''https://q/last'')]),
      (JStr ''https://q/submit-last'', JObj [(''correct'', JBool True), (''url'', JStr [])]),
      (JStr ''https://q/s'', JObj [(''correct'', JBool False)])]"

definition fixture_remote :: remote where
  "fixture_remote = \<lparr>
     launch = (\<lambda>t. (Inr (), 1)),
     goto = (\<lambda>t url. case map_of fixture_pages url of
                        Some (pg, d) \<Rightarrow> (Inr pg, d)
                      | None \<Rightarrow> (Inl ''net::ERR_NAME_NOT_RESOLVED'', 1)),
     http_get = (\<lambda>t url. if url = ''https://q/data.csv''
                           then (Inr ''name,value\<newline>a,1\<newline>b,2\<newline>c,3\<newline>'', 1)
                           else (Inl ''404 Not Found'', 1)),
     http_post = (\<lambda>t target payload.
        case map_of fixture_responses target of
          Some body \<Rightarrow> (Inr \<lparr>resp_json = Some body, status_code = 200, resp_text = []\<rparr>, 1)
        | None \<Rightarrow> (Inl ''ConnectError'', 1))\<rparr>"

definition fixture_cfg :: config where
  "fixture_cfg = \<lparr>EMAIL = ''you@example.com'', TIMEOUT_SECONDS = 180\<rparr>"

definition world0 :: world where
  "world0 = \<lparr>clock = 0, http_client_open = False, page_open = False, context_open = False,
             browser_open = False, calls = []\<rparr>"

text \<open>Four of the pages above, as the answer blocks see them.\<close>

definition page_inline :: page where
  "page_inline = \<lparr>current_url = ''https://q/inline'', page_text = ''<p>The sum of: 4, 5, 6</p>'',
                   page_plain = ''The sum of: 4, 5, 6''\<rparr>"

definition page_link :: page where
  \<open>page_link = \<lparr>current_url = ''https://q/link'', page_text = ''<a href="https://q/submit">go</a>'',
                 page_plain = ''go''\<rparr>\<close>

definition page_null :: page where
  \<open>page_null = \<lparr>current_url = ''https://q/null'',
                 page_text = ''{"email": "e", "secret": "k", "url": null}'',
                 page_plain = ''{"email": "e", "secret": "k", "url": null}''\<rparr>\<close>

definition page_table :: page where
  "page_table = \<lparr>current_url = ''https://q/table'',
     page_text = ''<p>sum of the value column</p><table><tr><td>1</td><td>2</td></tr></table>'',
     page_plain = ''sum of the value column 1 2''\<rparr>"

section \<open>Properties of try\_parse\_json\_from\_text\<close>

lemma ball_nat_upto:
  "(\<forall>e::nat. a < e \<and> e \<le> b \<longrightarrow> P e) \<longleftrightarrow> (\<forall>e \<in> set [Suc a..<Suc b]. P e)"
proof -
  have "\<And>e. (a < e \<and> e \<le> b) = (e \<in> set [Suc a..<Suc b])" by auto
  then show ?thesis by blast
qed

lemma find_char_None: "find_char c xs = None \<longleftrightarrow> c \<notin> set xs"
  by (induction xs) auto

lemma find_char_Some:
  "find_char c xs = Some i \<longleftrightarrow> i < length xs \<and> xs ! i = c \<and> (\<forall>j<i. xs ! j \<noteq> c)"
proof (induction xs arbitrary: i)
  case Nil
  show ?case by simp
next
  case (Cons x xs)
  show ?case
  proof (cases "x = c")
    case True
    then show ?thesis by (cases i) auto
  next
    case False
    show ?thesis
    proof (cases i)
      case 0
      with False show ?thesis by auto
    next
      case (Suc n)
      have "(\<forall>j<Suc n. (x # xs) ! j \<noteq> c) \<longleftrightarrow> (\<forall>j<n. xs ! j \<noteq> c)"
        using False by (auto simp: less_Suc_eq_0_disj)
      with Suc False Cons.IH [of n] show ?thesis by auto
    qed
  qed
qed

lemma scan_ends_none:
  "(\<forall>e. start < e \<and> e \<le> start + n \<longrightarrow> loads (slice text start e) = None)
   \<Longrightarrow> scan_ends loads text start n = None"
  by (induction n) auto

lemma scan_ends_longest:
  "\<lbrakk>start < e; e \<le> start + n; loads (slice text start e) = Some obj;
    \<forall>e'. e < e' \<and> e' \<le> start + n \<longrightarrow> loads (slice text start e') = None\<rbrakk>
   \<Longrightarrow> scan_ends loads text start n = Some obj"
proof (induction n)
  case 0
  then show ?case by simp
next
  case (Suc n)
  show ?case
  proof (cases "e = start + Suc n")
    case True
    with Suc.prems show ?thesis by simp
  next
    case False
    with Suc.prems have le: "e \<le> start + n" by simp
    from Suc.prems False have "loads (slice text start (start + Suc n)) = None"
      by simp
    moreover have "scan_ends loads text start n = Some obj"
      using Suc.IH Suc.prems le by simp
    ultimately show ?thesis by simp
  qed
qed

text \<open>
  C9. The scan starts at the first opening brace of the text. When the text has none, the
  result is \<^verbatim>\<open>None\<close>. Otherwise, with \<open>start\<close> the position of the first brace: when no
  span \<open>text[start:e]\<close> parses, the result is \<^verbatim>\<open>None\<close>; and when \<open>text[start:e]\<close> parses
  and every longer span from \<open>start\<close> fails, the result is the parse of \<open>text[start:e]\<close>,
  the longest span that parses.
\<close>

theorem try_parse_json_longest_span:
  "(CHR ''{'' \<notin> set text \<longrightarrow> try_parse_json_from_text loads text = None) \<and>
   (\<forall>start. start < length text \<and> text ! start = CHR ''{'' \<and> (\<forall>j<start. text ! j \<noteq> CHR ''{'') \<longrightarrow>
      ((\<forall>e. start < e \<and> e \<le> length text \<longrightarrow> loads (slice text start e) = None) \<longrightarrow>
         try_parse_json_from_text loads text = None) \<and>
      (\<forall>e obj. start < e \<and> e \<le> length text \<and> loads (slice text start e) = Some obj \<and>
           (\<forall>e'. e < e' \<and> e' \<le> length text \<longrightarrow> loads (slice text start e') = None) \<longrightarrow>
         try_parse_json_from_text loads text = Some obj))"
proof (intro conjI allI impI)
  assume "CHR ''{'' \<notin> set text"
  then have "find_char (CHR ''{'') text = None"
    by (simp add: find_char_None)
  then show "try_parse_json_from_text loads text = None"
    by (simp add: try_parse_json_from_text_def)
next
  fix start
  assume first: "start < length text \<and> text ! start = CHR ''{'' \<and> (\<forall>j<start. text ! j \<noteq> CHR ''{'')"
  assume "\<forall>e. start < e \<and> e \<le> length text \<longrightarrow> loads (slice text start e) = None"
  moreover from first have "find_char (CHR ''{'') text = Some start"
    by (simp add: find_char_Some)
  ultimately show "try_parse_json_from_text loads text = None"
    using first by (simp add: try_parse_json_from_text_def scan_ends_none)
next
  fix start e obj
  assume first: "start < length text \<and> text ! start = CHR ''{'' \<and> (\<forall>j<start. text ! j \<noteq> CHR ''{'')"
  assume span: "start < e \<and> e \<le> length text \<and> loads (slice text start e) = Some obj \<and>
           (\<forall>e'. e < e' \<and> e' \<le> length text \<longrightarrow> loads (slice text start e') = None)"
  from first have "find_char (CHR ''{'') text = Some start"
    by (simp add: find_char_Some)
  moreover have "scan_ends loads text start (length text - start) = Some obj"
    using first span by (intro scan_ends_longest [of start e]) auto
  ultimately show "try_parse_json_from_text loads text = Some obj"
    by (simp add: try_parse_json_from_text_def)
qed

theorem try_parse_json_longest_span_witness:
  \<open>try_parse_json_from_text fixture_loads ''go {"a": 1} now'' = Some [(''a'', JInt 1)] \<and>
   try_parse_json_from_text fixture_loads ''no brace'' = None \<and>
   try_parse_json_from_text fixture_loads ''x {nope'' = None\<close>
proof -
  let ?t = \<open>''go {"a": 1} now''\<close>
  have first: "3 < length ?t \<and> ?t ! 3 = CHR ''{'' \<and> (\<forall>j<3. ?t ! j \<noteq> CHR ''{'')"
    by (simp add: numeral_3_eq_3 All_less_Suc)
  have span: "(3::nat) < 11 \<and> 11 \<le> length ?t \<and>
      fixture_loads (slice ?t 3 11) = Some [(''a'', JInt 1)] \<and>
      (\<forall>e'. 11 < e' \<and> e' \<le> length ?t \<longrightarrow> fixture_loads (slice ?t 3 e') = None)"
    unfolding ball_nat_upto by (simp add: fixture_loads_def slice_def upt_rec)
  let ?u = "''x {nope''"
  have first2: "2 < length ?u \<and> ?u ! 2 = CHR ''{'' \<and> (\<forall>j<2. ?u ! j \<noteq> CHR ''{'')"
    by (simp add: numeral_2_eq_2 All_less_Suc)
  have none2: "\<forall>e. 2 < e \<and> e \<le> length ?u \<longrightarrow> fixture_loads (slice ?u 2 e) = None"
    unfolding ball_nat_upto by (simp add: fixture_loads_def slice_def upt_rec)
  have a: "try_parse_json_from_text fixture_loads ?t = Some [(''a'', JInt 1)]"
    using try_parse_json_longest_span [of ?t fixture_loads] first span by blast
  have b: "try_parse_json_from_text fixture_loads ''no brace'' = None"
    using try_parse_json_longest_span [of "''no brace''" fixture_loads] by simp
  have c: "try_parse_json_from_text fixture_loads ?u = None"
    using try_parse_json_longest_span [of ?u fixture_loads] first2 none2 by blast
  from a b c show ?thesis by simp
qed

section \<open>Payload and merge\<close>

lemma map_of_dict_update:
  "map_of (dict_update base d) = map_of base ++ map_of (rev d)"
proof (induction d arbitrary: base)
  case Nil
  show ?case by (simp add: dict_update_def)
next
  case (Cons kv d)
  obtain k v where kv: "kv = (k, v)" by (cases kv)
  have "dict_update base (kv # d) = dict_update (AList.update k v base) d"
    by (simp add: dict_update_def kv)
  then have "map_of (dict_update base (kv # d)) = map_of (AList.update k v base) ++ map_of (rev d)"
    using Cons.IH by simp
  also have "\<dots> = map_of base ++ map_of (rev (kv # d))"
    by (simp add: kv update_conv' map_add_upd_left map_add_assoc[symmetric] fun_eq_iff map_add_def split: option.splits)
  finally show ?case .
qed

lemma build_payload_fields:
  "map_of (build_payload cfg sec cur st) ''email'' = Some (JStr (EMAIL cfg)) \<and>
   map_of (build_payload cfg sec cur st) ''secret'' = Some (JStr sec) \<and>
   map_of (build_payload cfg sec cur st) ''url'' = Some (JStr cur)"
  by (simp add: build_payload_def)

lemma merge_template_lookup:
  "map_of (merge_template tmpl (build_payload cfg sec cur st)) k =
     (case map_of (build_payload cfg sec cur st) k of
        Some v \<Rightarrow> if v \<noteq> JNull then Some v
                  else (case tmpl of None \<Rightarrow> Some v | Some base \<Rightarrow> if base = [] then Some v else map_of base k)
      | None \<Rightarrow> (case tmpl of None \<Rightarrow> None | Some base \<Rightarrow> map_of base k))"
  by (simp add: merge_template_def map_of_dict_update build_payload_def map_add_def split: option.splits)

section \<open>The calls made while the answer is computed\<close>

lemma only_gets_refl: "only_gets w w"
  by (simp add: only_gets_def)

lemma only_gets_trans: "only_gets w w' \<Longrightarrow> only_gets w' w'' \<Longrightarrow> only_gets w w''"
  by (auto simp: only_gets_def)

lemma fetch_bytes_only_gets: "fetch_bytes R url w = (res, w') \<Longrightarrow> only_gets w w'"
  by (auto simp: fetch_bytes_def only_gets_def tick_def split: prod.splits)

lemma step1_world: "step1_table_sum lib pt pp st w = (res, w') \<Longrightarrow> w' = w"
  by (auto simp: step1_table_sum_def split: option.splits sum.splits)

lemma step2_only_gets: "step2_linked_file lib R cur pt st w = (res, w') \<Longrightarrow> only_gets w w'"
  by (auto simp: step2_linked_file_def only_gets_refl split: if_splits option.splits sum.splits prod.splits
           dest: fetch_bytes_only_gets)

lemma step3_world: "step3_inline_sum lib pp st w = (res, w') \<Longrightarrow> w' = w"
  by (auto simp: step3_inline_sum_def split: if_splits)

lemma template_file_only_gets: "template_file_answer lib R url st w = (res, w') \<Longrightarrow> only_gets w w'"
  by (auto simp: template_file_answer_def split: if_splits option.splits sum.splits prod.splits
           dest: fetch_bytes_only_gets)

lemma step4_only_gets: "step4_template lib R tmpl st w = (res, w') \<Longrightarrow> only_gets w w'"
  by (auto simp: step4_template_def only_gets_refl split: if_splits option.splits json.splits
           dest: template_file_only_gets)

lemma step5_world: "step5_decoded lib dec st w = (res, w') \<Longrightarrow> w' = w"
  by (auto simp: step5_decoded_def split: if_splits option.splits)

lemma step6_world: "step6_fallback lib pp st w = (res, w') \<Longrightarrow> w' = w"
  by (auto simp: step6_fallback_def split: if_splits)

lemma and_then_cases:
  "and_then r f = (res, w') \<Longrightarrow>
     (\<exists>e. r = (Inl e, w') \<and> res = Inl e) \<or> (\<exists>st w. r = (Inr st, w) \<and> f st w = (res, w'))"
  by (auto simp: and_then_def split: prod.splits sum.splits)

lemma resolve_only_gets:
  assumes "resolve_answer lib R p tmpl dec st w = (res, w')"
  shows "only_gets w w'"
proof -
  note ot = only_gets_trans and orf = only_gets_refl
  from assms show ?thesis
    unfolding resolve_answer_def
    apply (elim and_then_cases [THEN disjE] exE conjE)
    by (auto dest!: step1_world step2_only_gets step3_world step4_only_gets step5_world step6_world
        intro: only_gets_trans only_gets_refl)
qed

lemma merged_payload_identity:
  "has_identity_fields cfg sec (merge_template tmpl (build_payload cfg sec cur st))"
  by (simp add: has_identity_fields_def merge_template_lookup build_payload_fields)

lemma submit_calls:
  "submit R cur target payload cn w = (fl, w') \<Longrightarrow>
     calls w' = calls w \<or> calls w' = calls w @ [Post target payload]"
  by (auto simp: submit_def tick_def close_all_def split: if_splits prod.splits sum.splits)

lemma only_gets_posts:
  "only_gets w w' \<Longrightarrow> Post t pl \<in> set (calls w') \<Longrightarrow> Post t pl \<in> set (calls w)"
proof -
  assume og: "only_gets w w'" and mem: "Post t pl \<in> set (calls w')"
  from og obtain evs where evs: "calls w' = calls w @ evs" "list_all is_get evs"
    by (auto simp: only_gets_def)
  have "Post t pl \<notin> set evs"
  proof
    assume "Post t pl \<in> set evs"
    with evs(2) have "is_get (Post t pl)" unfolding list_all_iff by blast
    then show False by simp
  qed
  with mem evs(1) show ?thesis by simp
qed

lemma process_page_posts:
  assumes "process_page lib R cfg sec p cn w = (out, w')"
    and "Post t pl \<in> set (calls w')"
  shows "Post t pl \<in> set (calls w) \<or>
         (\<exists>st. pl = merge_template (detect_template lib (page_text p) (page_plain p))
                    (build_payload cfg sec (current_url p) st))"
proof (cases "resolve_answer lib R p (detect_template lib (page_text p) (page_plain p))
                (decode_page_blob lib (page_text p) (page_plain p)) (initial_rstate cn) w")
  case (Pair r w1)
  then have og: "only_gets w w1" by (rule resolve_only_gets)
  show ?thesis
  proof (cases r)
    case (Inl e)
    with Pair assms(1) have "w' = w1" by (simp add: process_page_def)
    with og assms(2) show ?thesis by (auto dest: only_gets_posts)
  next
    case (Inr st)
    obtain fl w2 where sub: "submit R (current_url p)
                  (final_submit_url (detect_template lib (page_text p) (page_plain p))
                     (early_submit_url lib (page_plain p)))
                  (merge_template (detect_template lib (page_text p) (page_plain p))
                     (build_payload cfg sec (current_url p) st))
                  (colname st) w1 = (fl, w2)" by (cases "submit R (current_url p)
                  (final_submit_url (detect_template lib (page_text p) (page_plain p))
                     (early_submit_url lib (page_plain p)))
                  (merge_template (detect_template lib (page_text p) (page_plain p))
                     (build_payload cfg sec (current_url p) st))
                  (colname st) w1") 
    with Pair Inr assms(1) have "w' = w2" by (simp add: process_page_def)
    with submit_calls [OF sub] assms(2) og show ?thesis
      by (auto dest: only_gets_posts)
  qed
qed

lemma iteration_posts:
  assumes "iteration lib R cfg sec cur cn w = (out, w')"
    and "Post t pl \<in> set (calls w')"
  shows "Post t pl \<in> set (calls w) \<or>
         (\<exists>tmpl st. pl = merge_template tmpl (build_payload cfg sec cur st))"
proof (cases "goto R (clock w) cur")
  case (Pair g d)
  show ?thesis
  proof (cases g)
    case (Inl m)
    with Pair assms show ?thesis by (auto simp: iteration_def tick_def)
  next
    case (Inr pg)
    obtain ptext pplain where pg: "pg = (ptext, pplain)" by (cases pg)
    from assms(1) Pair Inr pg
    have pp: "process_page lib R cfg sec \<lparr>current_url = cur, page_text = ptext, page_plain = pplain\<rparr> cn
            (tick d [Goto cur] w) = (out, w')"
      by (simp add: iteration_def)
    from process_page_posts [OF pp assms(2)] show ?thesis
      by (auto simp: tick_def)
  qed
qed

lemma chain_loop_posts:
  "chain_loop n lib R cfg sec deadline cur cn lr w = Some (out, w') \<Longrightarrow>
   Post t pl \<in> set (calls w') \<Longrightarrow>
   Post t pl \<in> set (calls w) \<or> has_identity_fields cfg sec pl"
proof (induction n arbitrary: cur cn lr w)
  case 0
  then show ?case by simp
next
  case (Suc n)
  show ?case
  proof (cases "truthy cur \<and> clock w < deadline")
    case False
    with Suc.prems show ?thesis by (auto simp: close_all_def)
  next
    case True
    show ?thesis
    proof (cases cur)
      case (JStr u)
      obtain r w1 where it: "iteration lib R cfg sec u cn w = (r, w1)"
        by (cases "iteration lib R cfg sec u cn w")
      have step: "\<And>t pl. Post t pl \<in> set (calls w1) \<Longrightarrow>
                     Post t pl \<in> set (calls w) \<or> has_identity_fields cfg sec pl"
        using iteration_posts [OF it] merged_payload_identity by blast
      show ?thesis
      proof (cases r)
        case (Inl e)
        with Suc.prems True JStr it step show ?thesis by auto
      next
        case (Inr fl)
        show ?thesis
        proof (cases fl)
          case (Return res)
          with Suc.prems True JStr it Inr step show ?thesis by auto
        next
          case (Continue nxt cn' resp)
          with Suc.prems(1) True JStr it Inr
          have "chain_loop n lib R cfg sec deadline nxt cn' resp w1 = Some (out, w')" by simp
          from Suc.IH [OF this Suc.prems(2)] step show ?thesis by blast
        qed
      qed
    qed (use Suc.prems True in auto)
  qed
qed

text \<open>
  C10. The payload built from the answer holds the operator's email, the caller's secret
  and the current URL, whatever the answer is, also when it is \<^verbatim>\<open>None\<close>. After the merge
  with a template, a field of the built payload that is not \<^verbatim>\<open>None\<close> keeps its computed
  value and every other field has the template's value, so the three fields are still
  there with their computed values. Every payload that a run of the chain posts holds
  the three fields.
\<close>

theorem posted_payload_identity_fields:
  "map_of (build_payload cfg sec cur st) ''email'' = Some (JStr (EMAIL cfg)) \<and>
   map_of (build_payload cfg sec cur st) ''secret'' = Some (JStr sec) \<and>
   map_of (build_payload cfg sec cur st) ''url'' = Some (JStr cur) \<and>
   map_of (merge_template tmpl (build_payload cfg sec cur st)) ''email'' = Some (JStr (EMAIL cfg)) \<and>
   map_of (merge_template tmpl (build_payload cfg sec cur st)) ''secret'' = Some (JStr sec) \<and>
   map_of (merge_template tmpl (build_payload cfg sec cur st)) ''url'' = Some (JStr cur) \<and>
   (\<forall>base k v. base \<noteq> [] \<and> map_of (build_payload cfg sec cur st) k = Some v \<and> v \<noteq> JNull \<longrightarrow>
        map_of (merge_template (Some base) (build_payload cfg sec cur st)) k = Some v) \<and>
   (\<forall>base k. base \<noteq> [] \<and> map_of (build_payload cfg sec cur st) k \<in> {None, Some JNull} \<longrightarrow>
        map_of (merge_template (Some base) (build_payload cfg sec cur st)) k = map_of base k) \<and>
   (\<forall>n lib R deadline c cn lr w out w' t pl.
        chain_loop n lib R cfg sec deadline c cn lr w = Some (out, w') \<and>
        Post t pl \<in> set (calls w') \<and> Post t pl \<notin> set (calls w) \<longrightarrow>
        has_identity_fields cfg sec pl)"
proof -
  have direct: "map_of (build_payload cfg sec cur st) ''email'' = Some (JStr (EMAIL cfg)) \<and>
     map_of (build_payload cfg sec cur st) ''secret'' = Some (JStr sec) \<and>
     map_of (build_payload cfg sec cur st) ''url'' = Some (JStr cur)"
    by (rule build_payload_fields)
  have merged: "map_of (merge_template tmpl (build_payload cfg sec cur st)) ''email'' = Some (JStr (EMAIL cfg)) \<and>
     map_of (merge_template tmpl (build_payload cfg sec cur st)) ''secret'' = Some (JStr sec) \<and>
     map_of (merge_template tmpl (build_payload cfg sec cur st)) ''url'' = Some (JStr cur)"
    by (simp add: merge_template_lookup build_payload_fields)
  have over: "\<forall>base k v. base \<noteq> [] \<and> map_of (build_payload cfg sec cur st) k = Some v \<and> v \<noteq> JNull \<longrightarrow>
        map_of (merge_template (Some base) (build_payload cfg sec cur st)) k = Some v"
    by (simp add: merge_template_lookup)
  have keep: "\<forall>base k. base \<noteq> [] \<and> map_of (build_payload cfg sec cur st) k \<in> {None, Some JNull} \<longrightarrow>
        map_of (merge_template (Some base) (build_payload cfg sec cur st)) k = map_of base k"
    by (auto simp: merge_template_lookup)
  have chain: "\<forall>n lib R deadline c cn lr w out w' t pl.
        chain_loop n lib R cfg sec deadline c cn lr w = Some (out, w') \<and>
        Post t pl \<in> set (calls w') \<and> Post t pl \<notin> set (calls w) \<longrightarrow>
        has_identity_fields cfg sec pl"
    using chain_loop_posts by blast
  from direct merged over keep chain show ?thesis by blast
qed


lemma run_csv_loop:
  "chain_loop 3 fixture_lib fixture_remote fixture_cfg ''k'' 180 (JStr ''https://q/csv'') None JNull
     (acquire world0) =
   Some (Inr [(''success'', JBool True),
        (''final_response'', JObj [(''correct'', JBool True)]),
        (''submitted'',
         JObj
          [(''email'', JStr ''you@example.com''), (''secret'', JStr ''k''),
           (''url'', JStr ''https://q/csv''), (''answer'', JFloat (Finite 0)),
           (''_meta'',
            JObj
             [(''method'', JStr ''csv-first-numeric:name''),
              (''raw_page_sample'', JNull)])])],
   \<lparr>clock = 3, http_client_open = False, page_open = False,
      context_open = False, browser_open = False,
      calls =
        [Goto ''https://q/csv'', Get ''https://q/data.csv'',
         Post (JStr ''https://q/submit'')
          [(''email'', JStr ''you@example.com''), (''secret'', JStr ''k''),
           (''url'', JStr ''https://q/csv''), (''answer'', JFloat (Finite 0)),
           (''_meta'',
            JObj
             [(''method'', JStr ''csv-first-numeric:name''),
              (''raw_page_sample'', JNull)])]]\<rparr>)"
  by code_simp

theorem posted_payload_identity_fields_witness:
  "map_of (merge_template (Some [(''email'', JStr ''t@t''), (''answer'', JInt 5)])
            (build_payload fixture_cfg ''k'' ''https://q/tmpl'' (initial_rstate None))) ''email''
     = Some (JStr ''you@example.com'') \<and>
   map_of (merge_template (Some [(''email'', JStr ''t@t''), (''answer'', JInt 5)])
            (build_payload fixture_cfg ''k'' ''https://q/tmpl'' (initial_rstate None))) ''answer''
     = Some (JInt 5) \<and>
   has_identity_fields fixture_cfg ''k''
     [(''email'', JStr ''you@example.com''), (''secret'', JStr ''k''),
      (''url'', JStr ''https://q/csv''), (''answer'', JFloat (Finite 0)),
      (''_meta'', JObj [(''method'', JStr ''csv-first-numeric:name''), (''raw_page_sample'', JNull)])]"
proof -
  let ?st = "initial_rstate None"
  let ?base = "[(''email'', JStr ''t@t''), (''answer'', JInt 5)]"
  let ?pl = "[(''email'', JStr ''you@example.com''), (''secret'', JStr ''k''),
      (''url'', JStr ''https://q/csv''), (''answer'', JFloat (Finite 0)),
      (''_meta'', JObj [(''method'', JStr ''csv-first-numeric:name''), (''raw_page_sample'', JNull)])]"
  note inst = posted_payload_identity_fields [of fixture_cfg "''k''" "''https://q/tmpl''" "?st" "Some ?base"]
  have e: "map_of (build_payload fixture_cfg ''k'' ''https://q/tmpl'' ?st) ''email''
             = Some (JStr ''you@example.com'')"
    by (simp add: build_payload_def initial_rstate_def fixture_cfg_def)
  have a: "map_of (build_payload fixture_cfg ''k'' ''https://q/tmpl'' ?st) ''answer'' \<in> {None, Some JNull}"
    by (simp add: build_payload_def initial_rstate_def)
  have ne: "?base \<noteq> []" by simp
  note over = inst [THEN conjunct2, THEN conjunct2, THEN conjunct2, THEN conjunct2,
                    THEN conjunct2, THEN conjunct2, THEN conjunct1, rule_format]
  note keep = inst [THEN conjunct2, THEN conjunct2, THEN conjunct2, THEN conjunct2,
                    THEN conjunct2, THEN conjunct2, THEN conjunct2, THEN conjunct1, rule_format]
  note chain = inst [THEN conjunct2, THEN conjunct2, THEN conjunct2, THEN conjunct2,
                     THEN conjunct2, THEN conjunct2, THEN conjunct2, THEN conjunct2, rule_format]
  have c1: "map_of (merge_template (Some ?base) (build_payload fixture_cfg ''k'' ''https://q/tmpl'' ?st)) ''email''
             = Some (JStr ''you@example.com'')"
    by (rule over) (simp add: e)
  have c2: "map_of (merge_template (Some ?base) (build_payload fixture_cfg ''k'' ''https://q/tmpl'' ?st)) ''answer''
             = map_of ?base ''answer''"
    by (rule keep) (use a in simp)
  have mem: "Post (JStr ''https://q/submit'') ?pl \<in> set (calls
      \<lparr>clock = 3, http_client_open = False, page_open = False,
      context_open = False, browser_open = False,
      calls = [Goto ''https://q/csv'', Get ''https://q/data.csv'', Post (JStr ''https://q/submit'') ?pl]\<rparr>)"
    by simp
  have nmem: "Post (JStr ''https://q/submit'') ?pl \<notin> set (calls (acquire world0))"
    by (simp add: acquire_def world0_def)
  have c3: "has_identity_fields fixture_cfg ''k'' ?pl"
    by (rule chain [OF conjI [OF run_csv_loop conjI [OF mem nmem]]])
  from c1 c2 c3 show ?thesis by simp
qed

section \<open>Continuation and deadline\<close>

lemma submit_posted:
  assumes "http_post R (clock w) target payload = (Inr r, d)" and "truthy target"
  shows "submit R cur target payload cn w =
           (if truthy (next_url_of (response_body r))
            then (Continue (next_url_of (response_body r)) cn (response_body r),
                  tick d [Post target payload] w)
            else (Return [(''success'', JBool True), (''final_response'', response_body r),
                          (''submitted'', JObj payload)],
                  close_all (tick d [Post target payload] w)))"
  using assms by (simp add: submit_def)

lemma chain_loop_continue:
  assumes "clock w < deadline" and "u \<noteq> []"
    and "iteration lib R cfg sec u cn w = (Inr (Continue nxt cn' resp), w')"
  shows "chain_loop (Suc n) lib R cfg sec deadline (JStr u) cn lr w =
         chain_loop n lib R cfg sec deadline nxt cn' resp w'"
  using assms by simp

lemma chain_loop_return:
  assumes "clock w < deadline" and "u \<noteq> []"
    and "iteration lib R cfg sec u cn w = (Inr (Return res), w')"
  shows "chain_loop (Suc n) lib R cfg sec deadline (JStr u) cn lr w = Some (Inr res, w')"
  using assms by simp

lemma chain_loop_deadline:
  assumes "\<not> clock w < deadline"
  shows "chain_loop (Suc n) lib R cfg sec deadline cur cn lr w =
         Some (Inr (timeout_result lr), close_all w)"
  using assms by simp

text \<open>
  C2, as amended. After a post that returns a response, the continuation is the value
  under \<^verbatim>\<open>url\<close> when that value is true (not \<^verbatim>\<open>None\<close>, not empty, not zero), else the
  value under \<^verbatim>\<open>next\<close> when that one is true; the loop then goes on with
  \<^verbatim>\<open>current_url\<close> replaced by it. When neither is true, or the body is not an object,
  the chain returns success with the response body and the submitted payload.
\<close>

theorem continuation_url_when_true:
  "(\<forall>r d. http_post R (clock w) target payload = (Inr r, d) \<and> truthy target \<longrightarrow>
      (\<forall>body. response_body r = JObj body \<and> truthy (dict_get body ''url'') \<longrightarrow>
         fst (submit R cur target payload cn w)
           = Continue (dict_get body ''url'') cn (response_body r)) \<and>
      (\<forall>body. response_body r = JObj body \<and> \<not> truthy (dict_get body ''url'') \<and>
              truthy (dict_get body ''next'') \<longrightarrow>
         fst (submit R cur target payload cn w)
           = Continue (dict_get body ''next'') cn (response_body r)) \<and>
      ((\<forall>body. response_body r = JObj body \<longrightarrow>
              \<not> truthy (dict_get body ''url'') \<and> \<not> truthy (dict_get body ''next'')) \<longrightarrow>
         fst (submit R cur target payload cn w)
           = Return [(''success'', JBool True), (''final_response'', response_body r),
                     (''submitted'', JObj payload)])) \<and>
   (\<forall>n lib cfg sec deadline u lr nxt cn' resp w'.
      clock w < deadline \<and> u \<noteq> [] \<and>
      iteration lib R cfg sec u cn w = (Inr (Continue nxt cn' resp), w') \<longrightarrow>
      chain_loop (Suc n) lib R cfg sec deadline (JStr u) cn lr w =
      chain_loop n lib R cfg sec deadline nxt cn' resp w') \<and>
   (\<forall>n lib cfg sec deadline u lr res w'.
      clock w < deadline \<and> u \<noteq> [] \<and>
      iteration lib R cfg sec u cn w = (Inr (Return res), w') \<longrightarrow>
      chain_loop (Suc n) lib R cfg sec deadline (JStr u) cn lr w = Some (Inr res, w'))"
proof (intro conjI allI impI)
  fix r d body
  assume p: "http_post R (clock w) target payload = (Inr r, d) \<and> truthy target"
    and b: "response_body r = JObj body \<and> truthy (dict_get body ''url'')"
  then show "fst (submit R cur target payload cn w) = Continue (dict_get body ''url'') cn (response_body r)"
    by (simp add: submit_posted [of R w target payload r d] next_url_of_def py_or_def)
next
  fix r d body
  assume p: "http_post R (clock w) target payload = (Inr r, d) \<and> truthy target"
    and b: "response_body r = JObj body \<and> \<not> truthy (dict_get body ''url'') \<and> truthy (dict_get body ''next'')"
  then show "fst (submit R cur target payload cn w) = Continue (dict_get body ''next'') cn (response_body r)"
    by (simp add: submit_posted [of R w target payload r d] next_url_of_def py_or_def)
next
  fix r d
  assume p: "http_post R (clock w) target payload = (Inr r, d) \<and> truthy target"
    and b: "\<forall>body. response_body r = JObj body \<longrightarrow>
              \<not> truthy (dict_get body ''url'') \<and> \<not> truthy (dict_get body ''next'')"
  have "\<not> truthy (next_url_of (response_body r))"
    using b by (cases "response_body r") (auto simp: next_url_of_def py_or_def)
  with p show "fst (submit R cur target payload cn w)
           = Return [(''success'', JBool True), (''final_response'', response_body r),
                     (''submitted'', JObj payload)]"
    by (simp add: submit_posted [of R w target payload r d])
next
  fix n lib cfg sec deadline u lr nxt cn' resp w'
  assume "clock w < deadline \<and> u \<noteq> [] \<and>
      iteration lib R cfg sec u cn w = (Inr (Continue nxt cn' resp), w')"
  then show "chain_loop (Suc n) lib R cfg sec deadline (JStr u) cn lr w =
      chain_loop n lib R cfg sec deadline nxt cn' resp w'"
    by (simp add: chain_loop_continue)
next
  fix n lib cfg sec deadline u lr res w'
  assume "clock w < deadline \<and> u \<noteq> [] \<and>
      iteration lib R cfg sec u cn w = (Inr (Return res), w')"
  then show "chain_loop (Suc n) lib R cfg sec deadline (JStr u) cn lr w = Some (Inr res, w')"
    by (simp add: chain_loop_return)
qed

lemma run_first_iteration:
  "iteration fixture_lib fixture_remote fixture_cfg ''k'' ''https://q/first'' None (acquire world0) =
   (Inr (Continue (JStr ''https://q/last'') None (JObj [(''next'', JStr ''https://q/last'')])),
    \<lparr>clock = 201, http_client_open = True, page_open = True,
     context_open = True, browser_open = True,
     calls =
       [Goto ''https://q/first'',
        Post (JStr ''https://q/submit-first'')
         [(''email'', JStr ''you@example.com''), (''secret'', JStr ''k''),
          (''url'', JStr ''https://q/first''), (''answer'', JFloat (Finite 1)),
          (''_meta'', JObj [(''method'', JStr ''fallback-sum-page''), (''raw_page_sample'', JNull)])]]\<rparr>)"
  by code_simp

lemma post_first:
  "http_post fixture_remote (clock (acquire world0)) (JStr ''https://q/submit-first'') [(''answer'', JFloat (Finite 1))] =
     (Inr \<lparr>resp_json = Some (JObj [(''next'', JStr ''https://q/last'')]), status_code = 200, resp_text = []\<rparr>, 1)"
  by code_simp

lemma post_last:
  "http_post fixture_remote (clock (acquire world0)) (JStr ''https://q/submit-last'') [(''answer'', JFloat (Finite 3))] =
     (Inr \<lparr>resp_json = Some (JObj [(''correct'', JBool True), (''url'', JStr [])]), status_code = 200, resp_text = []\<rparr>, 1)"
  by code_simp

theorem continuation_url_when_true_witness:
  "fst (submit fixture_remote ''https://q/first'' (JStr ''https://q/submit-first'')
          [(''answer'', JFloat (Finite 1))] None (acquire world0))
     = Continue (JStr ''https://q/last'') None (JObj [(''next'', JStr ''https://q/last'')]) \<and>
   fst (submit fixture_remote ''https://q/last'' (JStr ''https://q/submit-last'')
          [(''answer'', JFloat (Finite 3))] None (acquire world0))
     = Return [(''success'', JBool True),
               (''final_response'', JObj [(''correct'', JBool True), (''url'', JStr [])]),
               (''submitted'', JObj [(''answer'', JFloat (Finite 3))])] \<and>
   chain_loop (Suc 2) fixture_lib fixture_remote fixture_cfg ''k'' 1000 (JStr ''https://q/first'') None JNull
     (acquire world0) =
   chain_loop 2 fixture_lib fixture_remote fixture_cfg ''k'' 1000 (JStr ''https://q/last'') None
     (JObj [(''next'', JStr ''https://q/last'')])
     \<lparr>clock = 201, http_client_open = True, page_open = True,
     context_open = True, browser_open = True,
     calls =
       [Goto ''https://q/first'',
        Post (JStr ''https://q/submit-first'')
         [(''email'', JStr ''you@example.com''), (''secret'', JStr ''k''),
          (''url'', JStr ''https://q/first''), (''answer'', JFloat (Finite 1)),
          (''_meta'', JObj [(''method'', JStr ''fallback-sum-page''), (''raw_page_sample'', JNull)])]]\<rparr>"
proof -
  note a = continuation_url_when_true [of fixture_remote "acquire world0" "JStr ''https://q/submit-first''"
      "[(''answer'', JFloat (Finite 1))]" "''https://q/first''" None, THEN conjunct1, rule_format,
      OF conjI [OF post_first]]
  note a2 = a [THEN conjunct2, THEN conjunct1, rule_format, of "[(''next'', JStr ''https://q/last'')]"]
  have c1: "fst (submit fixture_remote ''https://q/first'' (JStr ''https://q/submit-first'')
          [(''answer'', JFloat (Finite 1))] None (acquire world0))
     = Continue (JStr ''https://q/last'') None (JObj [(''next'', JStr ''https://q/last'')])"
    using a2 by (simp add: response_body_def dict_get_def)
  note b = continuation_url_when_true [of fixture_remote "acquire world0" "JStr ''https://q/submit-last''"
      "[(''answer'', JFloat (Finite 3))]" "''https://q/last''" None, THEN conjunct1, rule_format,
      OF conjI [OF post_last]]
  note b3 = b [THEN conjunct2, THEN conjunct2, rule_format]
  have c2: "fst (submit fixture_remote ''https://q/last'' (JStr ''https://q/submit-last'')
          [(''answer'', JFloat (Finite 3))] None (acquire world0))
     = Return [(''success'', JBool True),
               (''final_response'', JObj [(''correct'', JBool True), (''url'', JStr [])]),
               (''submitted'', JObj [(''answer'', JFloat (Finite 3))])]"
    using b3 by (simp add: response_body_def dict_get_def)
  have h1: "clock (acquire world0) < 1000" by (simp add: acquire_def world0_def)
  have h2: "''https://q/first'' \<noteq> []" by simp
  have c3: "chain_loop (Suc 2) fixture_lib fixture_remote fixture_cfg ''k'' 1000 (JStr ''https://q/first'') None JNull
     (acquire world0) =
   chain_loop 2 fixture_lib fixture_remote fixture_cfg ''k'' 1000 (JStr ''https://q/last'') None
     (JObj [(''next'', JStr ''https://q/last'')])
     \<lparr>clock = 201, http_client_open = True, page_open = True,
     context_open = True, browser_open = True,
     calls =
       [Goto ''https://q/first'',
        Post (JStr ''https://q/submit-first'')
         [(''email'', JStr ''you@example.com''), (''secret'', JStr ''k''),
          (''url'', JStr ''https://q/first''), (''answer'', JFloat (Finite 1)),
          (''_meta'', JObj [(''method'', JStr ''fallback-sum-page''), (''raw_page_sample'', JNull)])]]\<rparr>"
    by (rule continuation_url_when_true [THEN conjunct2, THEN conjunct1, rule_format,
          OF conjI [OF h1 conjI [OF h2 run_first_iteration]]])
  from c1 c2 c3 show ?thesis by (intro conjI)
qed

text \<open>
  The claim as stated fails where a field is present with a value that is not true: the
  response to the post at \<^verbatim>\<open>https://q/submit-last\<close> has the key \<^verbatim>\<open>url\<close>, with the empty
  string, and the chain returns success instead of going on.
\<close>

theorem continuation_present_counterexample:
  "has_key [(''correct'', JBool True), (''url'', JStr [])] ''url'' \<and>
   submit fixture_remote ''https://q/last'' (JStr ''https://q/submit-last'')
          [(''answer'', JFloat (Finite 3))] None (acquire world0)
     = (Return [(''success'', JBool True),
               (''final_response'', JObj [(''correct'', JBool True), (''url'', JStr [])]),
               (''submitted'', JObj [(''answer'', JFloat (Finite 3))])],
        \<lparr>clock = 1, http_client_open = False, page_open = False,
         context_open = False, browser_open = False,
         calls = [Post (JStr ''https://q/submit-last'') [(''answer'', JFloat (Finite 3))]]\<rparr>) \<and>
   chain_loop (Suc 0) fixture_lib fixture_remote fixture_cfg ''k'' 180 (JStr ''https://q/last'') None JNull
     (acquire world0) =
   Some (Inr [(''success'', JBool True),
        (''final_response'', JObj [(''correct'', JBool True), (''url'', JStr [])]),
        (''submitted'',
         JObj
          [(''email'', JStr ''you@example.com''), (''secret'', JStr ''k''),
           (''url'', JStr ''https://q/last''), (''answer'', JFloat (Finite 3)),
           (''_meta'', JObj [(''method'', JStr ''fallback-sum-page''), (''raw_page_sample'', JNull)])])],
     \<lparr>clock = 2, http_client_open = False, page_open = False,
      context_open = False, browser_open = False,
      calls =
        [Goto ''https://q/last'',
         Post (JStr ''https://q/submit-last'')
          [(''email'', JStr ''you@example.com''), (''secret'', JStr ''k''),
           (''url'', JStr ''https://q/last''), (''answer'', JFloat (Finite 3)),
           (''_meta'', JObj [(''method'', JStr ''fallback-sum-page''), (''raw_page_sample'', JNull)])]]\<rparr>)"
  by code_simp


text \<open>
  C3. The clock is compared with the deadline where the loop condition is evaluated and
  nowhere else. When the deadline has passed there, the chain returns the failure with
  reason \<^verbatim>\<open>timeout or loop ended\<close>, and makes no further call. A pass through the loop
  body that started before the deadline runs to its end, however late the clock is by
  then: its return value is the chain's, and after a \<^verbatim>\<open>continue\<close> the deadline is looked
  at again before the next pass.
\<close>

theorem deadline_checked_between_iterations:
  "(\<not> clock w < deadline \<longrightarrow>
      chain_loop (Suc n) lib R cfg sec deadline cur cn lr w =
        Some (Inr (timeout_result lr), close_all w) \<and>
      calls (close_all w) = calls w \<and>
      map_of (timeout_result lr) ''success'' = Some (JBool False) \<and>
      map_of (timeout_result lr) ''reason'' = Some (JStr ''timeout or loop ended'')) \<and>
   (\<forall>u res w'. clock w < deadline \<and> u \<noteq> [] \<and>
      iteration lib R cfg sec u cn w = (Inr (Return res), w') \<longrightarrow>
      chain_loop (Suc n) lib R cfg sec deadline (JStr u) cn lr w = Some (Inr res, w')) \<and>
   (\<forall>u nxt cn' resp w'. clock w < deadline \<and> u \<noteq> [] \<and>
      iteration lib R cfg sec u cn w = (Inr (Continue nxt cn' resp), w') \<and>
      \<not> clock w' < deadline \<longrightarrow>
      chain_loop (Suc (Suc n)) lib R cfg sec deadline (JStr u) cn lr w =
        Some (Inr (timeout_result resp), close_all w') \<and>
      calls (close_all w') = calls w')"
proof (intro conjI allI impI)
  assume "\<not> clock w < deadline"
  then show "chain_loop (Suc n) lib R cfg sec deadline cur cn lr w =
        Some (Inr (timeout_result lr), close_all w)"
    by (rule chain_loop_deadline)
next
  show "calls (close_all w) = calls w" by (simp add: close_all_def)
next
  show "map_of (timeout_result lr) ''success'' = Some (JBool False)"
    by (simp add: timeout_result_def)
next
  show "map_of (timeout_result lr) ''reason'' = Some (JStr ''timeout or loop ended'')"
    by (simp add: timeout_result_def)
next
  fix u res w'
  assume "clock w < deadline \<and> u \<noteq> [] \<and>
      iteration lib R cfg sec u cn w = (Inr (Return res), w')"
  then show "chain_loop (Suc n) lib R cfg sec deadline (JStr u) cn lr w = Some (Inr res, w')"
    by (simp add: chain_loop_return)
next
  fix u nxt cn' resp w'
  assume a: "clock w < deadline \<and> u \<noteq> [] \<and>
      iteration lib R cfg sec u cn w = (Inr (Continue nxt cn' resp), w') \<and>
      \<not> clock w' < deadline"
  then have "chain_loop (Suc (Suc n)) lib R cfg sec deadline (JStr u) cn lr w =
             chain_loop (Suc n) lib R cfg sec deadline nxt cn' resp w'"
    by (simp add: chain_loop_continue)
  with a show "chain_loop (Suc (Suc n)) lib R cfg sec deadline (JStr u) cn lr w =
        Some (Inr (timeout_result resp), close_all w')"
    by (simp add: chain_loop_deadline)
next
  fix w' :: world
  show "calls (close_all w') = calls w'" by (simp add: close_all_def)
qed

lemma run_slow_iteration:
  "iteration fixture_lib fixture_remote fixture_cfg ''k'' ''https://q/slow'' None (acquire world0) =
   (Inr (Return
        [(''success'', JBool True),
         (''final_response'', JObj [(''correct'', JBool True)]),
         (''submitted'',
          JObj
           [(''email'', JStr ''you@example.com''), (''secret'', JStr ''k''),
            (''url'', JStr ''https://q/slow''), (''answer'', JFloat (Finite 7)),
            (''_meta'', JObj [(''method'', JStr ''fallback-sum-page''), (''raw_page_sample'', JNull)])])]),
  \<lparr>clock = 501, http_client_open = False, page_open = False,
     context_open = False, browser_open = False,
     calls =
       [Goto ''https://q/slow'',
        Post (JStr ''https://q/submit'')
         [(''email'', JStr ''you@example.com''), (''secret'', JStr ''k''),
          (''url'', JStr ''https://q/slow''), (''answer'', JFloat (Finite 7)),
          (''_meta'', JObj [(''method'', JStr ''fallback-sum-page''), (''raw_page_sample'', JNull)])]]\<rparr>)"
  by code_simp

theorem deadline_checked_between_iterations_witness:
  "chain_loop (Suc 0) fixture_lib fixture_remote fixture_cfg ''k'' 180 (JStr ''https://q/slow'') None JNull
     (acquire world0) =
   Some (Inr
        [(''success'', JBool True),
         (''final_response'', JObj [(''correct'', JBool True)]),
         (''submitted'',
          JObj
           [(''email'', JStr ''you@example.com''), (''secret'', JStr ''k''),
            (''url'', JStr ''https://q/slow''), (''answer'', JFloat (Finite 7)),
            (''_meta'', JObj [(''method'', JStr ''fallback-sum-page''), (''raw_page_sample'', JNull)])])],
  \<lparr>clock = 501, http_client_open = False, page_open = False,
     context_open = False, browser_open = False,
     calls =
       [Goto ''https://q/slow'',
        Post (JStr ''https://q/submit'')
         [(''email'', JStr ''you@example.com''), (''secret'', JStr ''k''),
          (''url'', JStr ''https://q/slow''), (''answer'', JFloat (Finite 7)),
          (''_meta'', JObj [(''method'', JStr ''fallback-sum-page''), (''raw_page_sample'', JNull)])]]\<rparr>) \<and>
   chain_loop (Suc (Suc 0)) fixture_lib fixture_remote fixture_cfg ''k'' 180 (JStr ''https://q/first'') None JNull
     (acquire world0) =
   Some (Inr (timeout_result (JObj [(''next'', JStr ''https://q/last'')])),
     close_all \<lparr>clock = 201, http_client_open = True, page_open = True,
     context_open = True, browser_open = True,
     calls =
       [Goto ''https://q/first'',
        Post (JStr ''https://q/submit-first'')
         [(''email'', JStr ''you@example.com''), (''secret'', JStr ''k''),
          (''url'', JStr ''https://q/first''), (''answer'', JFloat (Finite 1)),
          (''_meta'', JObj [(''method'', JStr ''fallback-sum-page''), (''raw_page_sample'', JNull)])]]\<rparr>) \<and>
   chain_loop (Suc 0) fixture_lib fixture_remote fixture_cfg ''k'' 0 (JStr ''https://q/slow'') None JNull
     (acquire world0) = Some (Inr (timeout_result JNull), close_all (acquire world0))"
proof -
  have h1: "clock (acquire world0) < 180" by (simp add: acquire_def world0_def)
  have h2: "''https://q/slow'' \<noteq> []" by simp
  have h3: "''https://q/first'' \<noteq> []" by simp
  have h4: "\<not> clock \<lparr>clock = 201, http_client_open = True, page_open = True,
     context_open = True, browser_open = True,
     calls =
       [Goto ''https://q/first'',
        Post (JStr ''https://q/submit-first'')
         [(''email'', JStr ''you@example.com''), (''secret'', JStr ''k''),
          (''url'', JStr ''https://q/first''), (''answer'', JFloat (Finite 1)),
          (''_meta'', JObj [(''method'', JStr ''fallback-sum-page''), (''raw_page_sample'', JNull)])]]\<rparr> < 180"
    by simp
  have h5: "\<not> clock (acquire world0) < 0" by (simp add: acquire_def world0_def)
  note a = deadline_checked_between_iterations [THEN conjunct2, THEN conjunct1, rule_format,
      OF conjI [OF h1 conjI [OF h2 run_slow_iteration]]]
  note b = deadline_checked_between_iterations [THEN conjunct2, THEN conjunct2, rule_format,
      OF conjI [OF h1 conjI [OF h3 conjI [OF run_first_iteration h4]]], THEN conjunct1]
  note c = deadline_checked_between_iterations [THEN conjunct1, rule_format, OF h5, THEN conjunct1]
  show ?thesis by (intro conjI) (rule a, rule b, rule c)
qed

section \<open>The cascade\<close>

lemma resolve_answer_run_steps:
  "resolve_answer lib R p tmpl dec st w = run_steps (answer_steps lib R p tmpl dec) st w"
  by (simp add: resolve_answer_def answer_steps_def and_then_def split: prod.splits sum.splits)

lemma run_steps_append:
  "run_steps (fs @ gs) st w = and_then (run_steps fs st w) (run_steps gs)"
proof (induction fs arbitrary: st w)
  case Nil
  show ?case by (simp add: and_then_def)
next
  case (Cons f fs)
  show ?case
    by (cases "f st w") (auto simp: and_then_def Cons.IH split: sum.splits prod.splits)
qed

lemma run_steps_guarded:
  "list_all guarded fs \<Longrightarrow> answer st \<noteq> JNull \<Longrightarrow> run_steps fs st w = (Inr st, w)"
  by (induction fs) (auto simp: guarded_def and_then_def)

lemma guarded_steps:
  "guarded (step2_linked_file lib R cur pt)"
  "guarded (step3_inline_sum lib pp)"
  "guarded (step4_template lib R tmpl)"
  "guarded (step5_decoded lib dec)"
  "guarded (step6_fallback lib pp)"
  by (simp_all add: guarded_def step2_linked_file_def step3_inline_sum_def step4_template_def
        step5_decoded_def step6_fallback_def)

lemma startswith_append: "startswith (p @ s) p"
  by (induction p) auto

lemma tabular_answer_tag:
  "tabular_answer lib cn df tag_sum tag_first = Inr (Some (a, m)) \<Longrightarrow>
     m = tag_sum \<or> startswith m tag_first"
  by (auto simp: tabular_answer_def startswith_append split: option.splits sum.splits)

lemma analyse_file_tag:
  "analyse_file lib cn link content = Inr (Some (a, m)) \<Longrightarrow> method_of_step 1 m"
  by (auto simp: analyse_file_def split: if_splits sum.splits dest!: tabular_answer_tag)

lemma step1_method:
  "step1_table_sum lib pt pp st w = (Inr st', w') \<Longrightarrow> answer st = JNull \<Longrightarrow>
   answer st' \<noteq> JNull \<Longrightarrow> meta_method st' = Some ''html-table-sum''"
  by (auto simp: step1_table_sum_def split: option.splits sum.splits)

lemma step2_method:
  "step2_linked_file lib R cur pt st w = (Inr st', w') \<Longrightarrow> answer st = JNull \<Longrightarrow>
   answer st' \<noteq> JNull \<Longrightarrow> \<exists>m. meta_method st' = Some m \<and> method_of_step 1 m"
  by (auto simp: step2_linked_file_def split: option.splits sum.splits prod.splits
           dest: analyse_file_tag)

lemma step3_method:
  "step3_inline_sum lib pp st w = (Inr st', w') \<Longrightarrow> answer st = JNull \<Longrightarrow>
   answer st' \<noteq> JNull \<Longrightarrow> meta_method st' = Some ''sum-inline-numbers''"
  by (auto simp: step3_inline_sum_def split: if_splits)

lemma template_file_method:
  "template_file_answer lib R url st w = (Inr st', w') \<Longrightarrow> answer st = JNull \<Longrightarrow>
   answer st' \<noteq> JNull \<Longrightarrow> \<exists>m. meta_method st' = Some m \<and> startswith m ''template-csv-first-num:''"
  by (auto simp: template_file_answer_def startswith_append
           split: if_splits option.splits sum.splits prod.splits)

lemma step4_method:
  "step4_template lib R tmpl st w = (Inr st', w') \<Longrightarrow> answer st = JNull \<Longrightarrow>
   answer st' \<noteq> JNull \<Longrightarrow> \<exists>m. meta_method st' = Some m \<and> method_of_step 3 m"
  by (auto simp: step4_template_def numeral_3_eq_3 split: if_splits option.splits json.splits
           dest: template_file_method)

lemma step5_method:
  "step5_decoded lib dec st w = (Inr st', w') \<Longrightarrow> answer st = JNull \<Longrightarrow>
   answer st' \<noteq> JNull \<Longrightarrow> \<exists>m. meta_method st' = Some m \<and> method_of_step 4 m"
  by (auto simp: step5_decoded_def eval_nat_numeral split: if_splits option.splits)

lemma step6_method:
  "step6_fallback lib pp st w = (Inr st', w') \<Longrightarrow> answer st = JNull \<Longrightarrow>
   answer st' \<noteq> JNull \<Longrightarrow> meta_method st' = Some ''fallback-sum-page''"
  by (auto simp: step6_fallback_def split: if_splits)


lemma answer_steps_length: "length (answer_steps lib R p tmpl dec) = 6"
  by (simp add: answer_steps_def)

lemma answer_steps_tail_guarded:
  "list_all guarded (drop (Suc k) (answer_steps lib R p tmpl dec))"
proof -
  have "list_all guarded (tl (answer_steps lib R p tmpl dec))"
    by (simp add: answer_steps_def guarded_steps)
  moreover have "set (drop (Suc k) (answer_steps lib R p tmpl dec))
                   \<subseteq> set (tl (answer_steps lib R p tmpl dec))"
    by (simp add: drop_Suc set_drop_subset)
  ultimately show ?thesis by (auto simp: list_all_iff)
qed

lemma run_steps_after_value:
  assumes "k \<le> 6"
    and "run_steps (take k (answer_steps lib R p tmpl dec)) st w = (Inr s, w')"
    and "answer s \<noteq> JNull" and "0 < k"
  shows "resolve_answer lib R p tmpl dec st w = (Inr s, w')"
proof -
  let ?fs = "answer_steps lib R p tmpl dec"
  obtain j where k: "k = Suc j" using assms(4) by (cases k) auto
  have "list_all guarded (drop k ?fs)"
    unfolding k by (rule answer_steps_tail_guarded)
  then have rest: "run_steps (drop k ?fs) s w' = (Inr s, w')"
    using assms(3) by (rule run_steps_guarded)
  have "run_steps ?fs st w = run_steps (take k ?fs @ drop k ?fs) st w" by simp
  also have "\<dots> = and_then (run_steps (take k ?fs) st w) (run_steps (drop k ?fs))"
    by (rule run_steps_append)
  also have "\<dots> = (Inr s, w')" using assms(2) rest by (simp add: and_then_def)
  finally show ?thesis by (simp add: resolve_answer_run_steps)
qed

lemma run_steps_take_Suc:
  assumes "k < length fs" and "run_steps (take k fs) st w = (Inr s, w')"
  shows "run_steps (take (Suc k) fs) st w = (fs ! k) s w'"
proof -
  have "take (Suc k) fs = take k fs @ [fs ! k]"
    using assms(1) by (rule take_Suc_conv_app_nth)
  then have "run_steps (take (Suc k) fs) st w = and_then (run_steps (take k fs) st w) (run_steps [fs ! k])"
    by (simp add: run_steps_append)
  also have "\<dots> = run_steps [fs ! k] s w'" using assms(2) by (simp add: and_then_def)
  also have "\<dots> = (fs ! k) s w'"
    by (cases "(fs ! k) s w'") (auto simp: and_then_def split: sum.splits)
  finally show ?thesis .
qed

lemma step_method:
  assumes "k < 6" and "(answer_steps lib R p tmpl dec ! k) s w = (Inr s', w')"
    and "answer s = JNull" and "answer s' \<noteq> JNull"
  shows "\<exists>m. meta_method s' = Some m \<and> method_of_step k m"
proof -
  from assms(1) consider "k = 0" | "k = 1" | "k = 2" | "k = 3" | "k = 4" | "k = 5" by linarith
  then show ?thesis
  proof cases
    case 1
    with assms show ?thesis by (auto simp: answer_steps_def dest: step1_method)
  next
    case 2
    with assms show ?thesis by (auto simp: answer_steps_def dest: step2_method)
  next
    case 3
    with assms show ?thesis
      by (auto simp: answer_steps_def numeral_2_eq_2 dest: step3_method)
  next
    case 4
    with assms show ?thesis
      by (auto simp: answer_steps_def dest: step4_method)
  next
    case 5
    with assms show ?thesis
      by (auto simp: answer_steps_def dest: step5_method)
  next
    case 6
    with assms show ?thesis
      by (auto simp: answer_steps_def eval_nat_numeral dest: step6_method)
  qed
qed

lemma run_steps_first_value:
  "run_steps fs st w = (Inr s, w') \<Longrightarrow> answer st = JNull \<Longrightarrow> answer s \<noteq> JNull \<Longrightarrow>
   \<exists>k<length fs. \<exists>s0 w0 s1 w1.
      run_steps (take k fs) st w = (Inr s0, w0) \<and> answer s0 = JNull \<and>
      (fs ! k) s0 w0 = (Inr s1, w1) \<and> answer s1 \<noteq> JNull"
proof (induction fs arbitrary: st w)
  case Nil
  then show ?case by simp
next
  case (Cons f fs)
  from Cons.prems(1) obtain s1 w1 where f: "f st w = (Inr s1, w1)"
    and rest: "run_steps fs s1 w1 = (Inr s, w')"
    by (cases "f st w") (auto simp: and_then_def split: sum.splits)
  show ?case
  proof (cases "answer s1 = JNull")
    case False
    have "run_steps (take 0 (f # fs)) st w = (Inr st, w) \<and> answer st = JNull \<and>
          ((f # fs) ! 0) st w = (Inr s1, w1) \<and> answer s1 \<noteq> JNull"
      using f False Cons.prems(2) by simp
    then show ?thesis by blast
  next
    case True
    from Cons.IH [OF rest True Cons.prems(3)]
    obtain k s0 w0 s2 w2 where k: "k < length fs"
      and pre: "run_steps (take k fs) s1 w1 = (Inr s0, w0)" and n: "answer s0 = JNull"
      and st: "(fs ! k) s0 w0 = (Inr s2, w2)" and v: "answer s2 \<noteq> JNull"
      by blast
    have "run_steps (take (Suc k) (f # fs)) st w = (Inr s0, w0)"
      using f pre by (simp add: and_then_def)
    moreover have "((f # fs) ! Suc k) s0 w0 = (Inr s2, w2)" using st by simp
    moreover have "Suc k < length (f # fs)" using k by simp
    ultimately show ?thesis using n v by blast
  qed
qed

text \<open>
  The order of the blocks on the runs that return. The blocks run in the order table sum,
  linked file, inline sum, template, decoded blob, fallback. When the blocks before block
  \<open>k\<close> have left the answer \<^verbatim>\<open>None\<close> and block \<open>k\<close> sets it, the state and the world that
  block \<open>k\<close> leaves are the final ones, so no later block changes the answer, writes a
  method tag or fetches a file, and the method tag is one of block \<open>k\<close>. When the answer
  is still \<^verbatim>\<open>None\<close> after the last block, the payload has a null answer and the note
  \<^verbatim>\<open>unable to parse task automatically\<close>.
\<close>

lemma first_value_wins:
  "(\<forall>k s w' s' w''. k < 6 \<and>
       run_steps (take k (answer_steps lib R p tmpl dec)) (initial_rstate cn) w = (Inr s, w') \<and>
       answer s = JNull \<and>
       (answer_steps lib R p tmpl dec ! k) s w' = (Inr s', w'') \<and> answer s' \<noteq> JNull \<longrightarrow>
       resolve_answer lib R p tmpl dec (initial_rstate cn) w = (Inr s', w'') \<and>
       (\<exists>m. meta_method s' = Some m \<and> method_of_step k m)) \<and>
   (\<forall>s w'. resolve_answer lib R p tmpl dec (initial_rstate cn) w = (Inr s, w') \<and>
       answer s = JNull \<longrightarrow>
       map_of (build_payload cfg sec (current_url p) s) ''answer'' = Some JNull \<and>
       map_of (build_payload cfg sec (current_url p) s) ''note''
         = Some (JStr ''unable to parse task automatically'')) \<and>
   (\<forall>s w'. resolve_answer lib R p tmpl dec (initial_rstate cn) w = (Inr s, w') \<and>
       answer s \<noteq> JNull \<longrightarrow>
       (\<exists>k<6. \<exists>s0 w0.
          run_steps (take k (answer_steps lib R p tmpl dec)) (initial_rstate cn) w = (Inr s0, w0) \<and>
          answer s0 = JNull \<and> (answer_steps lib R p tmpl dec ! k) s0 w0 = (Inr s, w')))"
proof (intro conjI allI impI)
  fix k s w' s' w''
  assume a: "k < 6 \<and>
       run_steps (take k (answer_steps lib R p tmpl dec)) (initial_rstate cn) w = (Inr s, w') \<and>
       answer s = JNull \<and>
       (answer_steps lib R p tmpl dec ! k) s w' = (Inr s', w'') \<and> answer s' \<noteq> JNull"
  let ?fs = "answer_steps lib R p tmpl dec"
  from a have "run_steps (take (Suc k) ?fs) (initial_rstate cn) w = (Inr s', w'')"
    by (simp add: run_steps_take_Suc answer_steps_length)
  moreover from a have "Suc k \<le> 6" by simp
  ultimately show "resolve_answer lib R p tmpl dec (initial_rstate cn) w = (Inr s', w'')"
    using a by (intro run_steps_after_value [of "Suc k"]) auto
  from a show "\<exists>m. meta_method s' = Some m \<and> method_of_step k m"
    by (intro step_method [of k lib R p tmpl dec s w' s' w'']) auto
next
  fix s w'
  assume "resolve_answer lib R p tmpl dec (initial_rstate cn) w = (Inr s, w') \<and> answer s = JNull"
  then show "map_of (build_payload cfg sec (current_url p) s) ''answer'' = Some JNull"
    by (simp add: build_payload_def)
next
  fix s w'
  assume "resolve_answer lib R p tmpl dec (initial_rstate cn) w = (Inr s, w') \<and> answer s = JNull"
  then show "map_of (build_payload cfg sec (current_url p) s) ''note''
         = Some (JStr ''unable to parse task automatically'')"
    by (simp add: build_payload_def)
next
  fix s w'
  let ?fs = "answer_steps lib R p tmpl dec"
  assume a: "resolve_answer lib R p tmpl dec (initial_rstate cn) w = (Inr s, w') \<and> answer s \<noteq> JNull"
  then have run: "run_steps ?fs (initial_rstate cn) w = (Inr s, w')"
    by (simp add: resolve_answer_run_steps)
  have init: "answer (initial_rstate cn) = JNull" by (simp add: initial_rstate_def)
  from run_steps_first_value [OF run init] a
  obtain k s0 w0 s1 w1 where k: "k < 6"
    and pre: "run_steps (take k ?fs) (initial_rstate cn) w = (Inr s0, w0)" and n: "answer s0 = JNull"
    and st: "(?fs ! k) s0 w0 = (Inr s1, w1)" and v: "answer s1 \<noteq> JNull"
    by (auto simp: answer_steps_length)
  have "run_steps (take (Suc k) ?fs) (initial_rstate cn) w = (Inr s1, w1)"
    using k pre st by (simp add: run_steps_take_Suc answer_steps_length)
  then have "resolve_answer lib R p tmpl dec (initial_rstate cn) w = (Inr s1, w1)"
    using k v by (intro run_steps_after_value [of "Suc k"]) auto
  with a have "s1 = s" "w1 = w'" by simp_all
  with k pre n st show "\<exists>k<6. \<exists>s0 w0.
          run_steps (take k ?fs) (initial_rstate cn) w = (Inr s0, w0) \<and>
          answer s0 = JNull \<and> (?fs ! k) s0 w0 = (Inr s, w')"
    by blast
qed

lemma run_inline_prefix:
  "run_steps (take 2 (answer_steps fixture_lib fixture_remote page_inline None None))
     (initial_rstate None) world0 = (Inr (initial_rstate None), world0)"
  by code_simp

lemma run_inline_step:
  "(answer_steps fixture_lib fixture_remote page_inline None None ! 2) (initial_rstate None) world0
     = (Inr \<lparr>answer = JFloat (Finite 15), meta_method = Some ''sum-inline-numbers'', meta_file_error = None,
              colname = None\<rparr>, world0)"
  by code_simp

lemma run_link_resolve:
  "resolve_answer fixture_lib fixture_remote page_link None None (initial_rstate None) world0
     = (Inr (initial_rstate None), world0)"
  by code_simp

lemma first_value_wins_example:
  "resolve_answer fixture_lib fixture_remote page_inline None None (initial_rstate None) world0
     = (Inr \<lparr>answer = JFloat (Finite 15), meta_method = Some ''sum-inline-numbers'', meta_file_error = None,
              colname = None\<rparr>, world0) \<and>
   map_of (build_payload fixture_cfg ''k'' (current_url page_link) (initial_rstate None)) ''note''
     = Some (JStr ''unable to parse task automatically'')"
proof -
  have k: "(2::nat) < 6" by simp
  have n: "answer (initial_rstate None) = JNull" by (simp add: initial_rstate_def)
  have v: "answer \<lparr>answer = JFloat (Finite 15), meta_method = Some ''sum-inline-numbers'', meta_file_error = None,
              colname = None\<rparr> \<noteq> JNull" by simp
  note a = first_value_wins [THEN conjunct1, rule_format,
      OF conjI [OF k conjI [OF run_inline_prefix conjI [OF n conjI [OF run_inline_step v]]]],
      THEN conjunct1]
  note b = first_value_wins [THEN conjunct2, THEN conjunct1, rule_format,
      OF conjI [OF run_link_resolve n], THEN conjunct2, of fixture_cfg "''k''"]
  show ?thesis by (intro conjI) (rule a, rule b)
qed

text \<open>
  C1. The cascade gives the answer of the first block that sets it on every run that
  returns (\<open>first_value_wins\<close> above), but not on every page. On \<^verbatim>\<open>https://q/null\<close>
  blocks 1 to 3 yield nothing, block 4 raises, and blocks 5 and 6 would yield nothing
  either: no heuristic produces a value, and instead of the absent answer with the note
  the result is the exception, which ends the chain before anything is posted. On
  \<^verbatim>\<open>https://q/table\<close> block 1 raises, where block 2 yields nothing and block 3 is the first
  that would produce a value, 3 with the tag \<^verbatim>\<open>sum-inline-numbers\<close>: the result is the
  exception again.
\<close>

theorem cascade_raises_instead_of_answer:
  "detect_template fixture_lib (page_text page_null) (page_plain page_null)
     = Some [(''email'', JStr ''e''), (''secret'', JStr ''k''), (''url'', JNull)] \<and>
   decode_page_blob fixture_lib (page_text page_null) (page_plain page_null) = None \<and>
   run_steps (take 3 (answer_steps fixture_lib fixture_remote page_null
       (Some [(''email'', JStr ''e''), (''secret'', JStr ''k''), (''url'', JNull)]) None))
     (initial_rstate None) (acquire world0) = (Inr (initial_rstate None), acquire world0) \<and>
   (answer_steps fixture_lib fixture_remote page_null
       (Some [(''email'', JStr ''e''), (''secret'', JStr ''k''), (''url'', JNull)]) None ! 3)
     (initial_rstate None) (acquire world0) = (Inl AttributeError, acquire world0) \<and>
   (answer_steps fixture_lib fixture_remote page_null
       (Some [(''email'', JStr ''e''), (''secret'', JStr ''k''), (''url'', JNull)]) None ! 4)
     (initial_rstate None) (acquire world0) = (Inr (initial_rstate None), acquire world0) \<and>
   (answer_steps fixture_lib fixture_remote page_null
       (Some [(''email'', JStr ''e''), (''secret'', JStr ''k''), (''url'', JNull)]) None ! 5)
     (initial_rstate None) (acquire world0) = (Inr (initial_rstate None), acquire world0) \<and>
   resolve_answer fixture_lib fixture_remote page_null
       (detect_template fixture_lib (page_text page_null) (page_plain page_null))
       (decode_page_blob fixture_lib (page_text page_null) (page_plain page_null))
     (initial_rstate None) (acquire world0) = (Inl AttributeError, acquire world0) \<and>
   solve_quiz_chain (Suc 0) fixture_lib fixture_remote fixture_cfg (JStr ''https://q/null'') ''k'' world0
     = Some (Inl AttributeError,
        \<lparr>clock = 2, http_client_open = True, page_open = False,
         context_open = False, browser_open = False,
         calls = [Goto ''https://q/null'']\<rparr>) \<and>
   detect_template fixture_lib (page_text page_table) (page_plain page_table) = None \<and>
   decode_page_blob fixture_lib (page_text page_table) (page_plain page_table) = None \<and>
   (answer_steps fixture_lib fixture_remote page_table None None ! 0)
     (initial_rstate None) (acquire world0) = (Inl AttributeError, acquire world0) \<and>
   (answer_steps fixture_lib fixture_remote page_table None None ! 1)
     (initial_rstate None) (acquire world0) = (Inr (initial_rstate None), acquire world0) \<and>
   (answer_steps fixture_lib fixture_remote page_table None None ! 2)
     (initial_rstate None) (acquire world0)
     = (Inr \<lparr>answer = JFloat (Finite 3), meta_method = Some ''sum-inline-numbers'',
              meta_file_error = None, colname = None\<rparr>, acquire world0) \<and>
   resolve_answer fixture_lib fixture_remote page_table None None
     (initial_rstate None) (acquire world0) = (Inl AttributeError, acquire world0) \<and>
   solve_quiz_chain (Suc 0) fixture_lib fixture_remote fixture_cfg (JStr ''https://q/table'') ''k'' world0
     = Some (Inl AttributeError,
        \<lparr>clock = 2, http_client_open = True, page_open = False,
         context_open = False, browser_open = False,
         calls = [Goto ''https://q/table'']\<rparr>)"
  by code_simp

section \<open>Link discovery\<close>

lemma startswith_map: "startswith s p \<Longrightarrow> startswith (map f s) (map f p)"
  by (induction s p rule: startswith.induct) auto

lemma contains_map: "contains s n \<Longrightarrow> contains (map f s) (map f n)"
proof (induction s)
  case Nil
  then show ?case by simp
next
  case (Cons c cs)
  from Cons.prems have "startswith (c # cs) n \<or> contains cs n" by simp
  then show ?case
  proof
    assume "startswith (c # cs) n"
    then have "startswith (map f (c # cs)) (map f n)" by (rule startswith_map)
    then show ?thesis by simp
  next
    assume "contains cs n"
    then have "contains (map f cs) (map f n)" by (rule Cons.IH)
    then show ?thesis by simp
  qed
qed

lemma lower_submit: "lower ''submit'' = ''submit''"
  by (simp add: lower_def lower_char_def)

lemma is_submit_like_iff:
  "is_submit_like c \<longleftrightarrow> contains (lower c) ''submit'' \<or> contains (lower c) ''answer''"
proof -
  have "contains c ''submit'' \<Longrightarrow> contains (lower c) ''submit''"
    using contains_map [of c "''submit''" lower_char] lower_submit by (simp add: lower_def)
  then show ?thesis by (auto simp: is_submit_like_def)
qed

lemma find_first:
  "xs = pre @ c # post \<Longrightarrow> P c \<Longrightarrow> \<forall>x\<in>set pre. \<not> P x \<Longrightarrow> find P xs = Some c"
  by (induction pre arbitrary: xs) auto

lemma find_none: "\<forall>x\<in>set xs. \<not> P x \<Longrightarrow> find P xs = None"
  by (induction xs) auto

text \<open>
  C4, as amended. The candidates are the URL-looking tokens of the plain text of the page
  body, in the order they appear; the markup is not read. The guess is the first
  candidate whose lower-case form contains \<^verbatim>\<open>submit\<close> or \<^verbatim>\<open>answer\<close>; when no candidate
  qualifies it is the first candidate; when there is no candidate there is no guess.
  The guess is \<^verbatim>\<open>submit_url\<close> as long as the plain text holds no JSON object.
\<close>

theorem submit_url_guess_from_plain_text:
  "(find_urls plain = [] \<longrightarrow> guess_submit_url plain = JNull) \<and>
   (\<forall>pre c post. find_urls plain = pre @ c # post \<and>
        (contains (lower c) ''submit'' \<or> contains (lower c) ''answer'') \<and>
        (\<forall>x\<in>set pre. \<not> contains (lower x) ''submit'' \<and> \<not> contains (lower x) ''answer'') \<longrightarrow>
        guess_submit_url plain = JStr c) \<and>
   (\<forall>c cs. find_urls plain = c # cs \<and>
        (\<forall>x\<in>set (c # cs). \<not> contains (lower x) ''submit'' \<and> \<not> contains (lower x) ''answer'') \<longrightarrow>
        guess_submit_url plain = JStr c) \<and>
   (try_parse_json_from_text (json_loads lib) plain = None \<longrightarrow>
        early_submit_url lib plain = guess_submit_url plain)"
proof (intro conjI allI impI)
  assume "find_urls plain = []"
  then show "guess_submit_url plain = JNull" by (simp add: guess_submit_url_def)
next
  fix pre c post
  assume a: "find_urls plain = pre @ c # post \<and>
        (contains (lower c) ''submit'' \<or> contains (lower c) ''answer'') \<and>
        (\<forall>x\<in>set pre. \<not> contains (lower x) ''submit'' \<and> \<not> contains (lower x) ''answer'')"
  then have "find is_submit_like (find_urls plain) = Some c"
    by (intro find_first [of _ pre c post]) (auto simp: is_submit_like_iff)
  moreover from a have "find_urls plain \<noteq> []" by simp
  ultimately show "guess_submit_url plain = JStr c"
    by (cases "find_urls plain") (auto simp: guess_submit_url_def)
next
  fix c cs
  assume a: "find_urls plain = c # cs \<and>
        (\<forall>x\<in>set (c # cs). \<not> contains (lower x) ''submit'' \<and> \<not> contains (lower x) ''answer'')"
  then have "find is_submit_like (c # cs) = None"
    by (intro find_none) (auto simp: is_submit_like_iff)
  with a show "guess_submit_url plain = JStr c"
    by (simp add: guess_submit_url_def)
next
  assume "try_parse_json_from_text (json_loads lib) plain = None"
  then show "early_submit_url lib plain = guess_submit_url plain"
    by (simp add: early_submit_url_def)
qed

lemma urls_two:
  "find_urls ''see http://q/doc then https://q/Answer-here or https://q/submit''
     = [''http://q/doc'', ''https://q/Answer-here'', ''https://q/submit'']"
  by code_simp

lemma urls_plain:
  "find_urls ''see http://q/doc and http://q/more'' = [''http://q/doc'', ''http://q/more'']"
  by code_simp

theorem submit_url_guess_from_plain_text_witness:
  "guess_submit_url ''see http://q/doc then https://q/Answer-here or https://q/submit''
     = JStr ''https://q/Answer-here'' \<and>
   guess_submit_url ''see http://q/doc and http://q/more'' = JStr ''http://q/doc'' \<and>
   guess_submit_url ''go'' = JNull \<and>
   early_submit_url fixture_lib ''go'' = guess_submit_url ''go''"
proof -
  have e1: "find_urls ''see http://q/doc then https://q/Answer-here or https://q/submit''
     = [''http://q/doc''] @ ''https://q/Answer-here'' # [''https://q/submit'']"
    using urls_two by simp
  have q1: "contains (lower ''https://q/Answer-here'') ''submit'' \<or>
            contains (lower ''https://q/Answer-here'') ''answer''"
    by code_simp
  have n1: "\<forall>x\<in>set [''http://q/doc'']. \<not> contains (lower x) ''submit'' \<and> \<not> contains (lower x) ''answer''"
    by code_simp
  have n2: "\<forall>x\<in>set (''http://q/doc'' # [''http://q/more'']).
              \<not> contains (lower x) ''submit'' \<and> \<not> contains (lower x) ''answer''"
    by code_simp
  have e3: "find_urls ''go'' = []" by code_simp
  have p3: "try_parse_json_from_text (json_loads fixture_lib) ''go'' = None" by code_simp
  note a = submit_url_guess_from_plain_text [THEN conjunct2, THEN conjunct1, rule_format,
             OF conjI [OF e1 conjI [OF q1 n1]]]
  note b = submit_url_guess_from_plain_text [THEN conjunct2, THEN conjunct2, THEN conjunct1, rule_format,
             OF conjI [OF urls_plain n2]]
  note c = submit_url_guess_from_plain_text [THEN conjunct1, rule_format, OF e3]
  note d = submit_url_guess_from_plain_text [THEN conjunct2, THEN conjunct2, THEN conjunct2,
             rule_format, OF p3]
  show ?thesis by (intro conjI) (rule a, rule b, rule c, rule d)
qed

text \<open>
  The claim as stated fails on a page whose only URL stands in a markup attribute: the
  anchor of \<^verbatim>\<open>https://q/link\<close> points at \<^verbatim>\<open>https://q/submit\<close>, the plain text is
  \<^verbatim>\<open>go\<close>, there is no candidate, and the chain returns for want of a submit URL.
\<close>

theorem markup_links_counterexample:
  \<open>find_urls ''<a href="https://q/submit">go</a>'' = [''https://q/submit''] \<and>
   find_urls ''go'' = [] \<and>
   early_submit_url fixture_lib ''go'' = JNull \<and>
   chain_loop (Suc 0) fixture_lib fixture_remote fixture_cfg ''k'' 180 (JStr ''https://q/link'') None JNull
     (acquire world0) =
   Some (Inr [(''success'', JBool False),
        (''reason'', JStr ''No submit URL found on page''),
        (''page_url'', JStr ''https://q/link''),
        (''payload_tried'',
         JObj
          [(''email'', JStr ''you@example.com''), (''secret'', JStr ''k''),
           (''url'', JStr ''https://q/link''), (''answer'', JNull),
           (''note'', JStr ''unable to parse task automatically'')])],
   \<lparr>clock = 1, http_client_open = False, page_open = False,
      context_open = False, browser_open = False,
      calls = [Goto ''https://q/link'']\<rparr>)\<close>
  by code_simp

section \<open>Template detection\<close>

lemma has_payload_keys_Some:
  "has_payload_keys d \<Longrightarrow> \<exists>t. d = Some t \<and> t \<noteq> []"
  by (cases d) (auto simp: has_payload_keys_def)

lemma mentions_submit_Some:
  "mentions_submit lib d \<Longrightarrow> \<exists>t. d = Some t \<and> t \<noteq> []"
  by (cases d) (auto simp: mentions_submit_def)

lemma detect_template_nonempty:
  "detect_template lib text plain = Some t \<Longrightarrow> t \<noteq> []"
  by (auto simp: detect_template_def split: if_splits
           dest: has_payload_keys_Some mentions_submit_Some)

text \<open>The submit target of lines 254 to 260, from the page alone.\<close>

lemma target_of_template:
  assumes "detect_template lib text plain = Some t"
  shows "final_submit_url (Some t) g =
           (if truthy (dict_get t ''submit'') then dict_get t ''submit''
            else if truthy (dict_get t ''url'') then dict_get t ''url''
            else g)"
  using detect_template_nonempty [OF assms]
  by (simp add: final_submit_url_def py_or_def)

text \<open>
  \<^verbatim>\<open>submit_url\<close> after line 73, when the template's \<^verbatim>\<open>submit\<close> and \<^verbatim>\<open>url\<close> are not true and
  the template lacks one of the three keys or has no \<^verbatim>\<open>submit\<close> key.
\<close>

lemma early_submit_url_fallback:
  assumes d: "detect_template lib text plain = Some t"
    and ns: "\<not> truthy (dict_get t ''submit'')" and nu: "\<not> truthy (dict_get t ''url'')"
    and k: "\<not> has_payload_keys (Some t) \<or> \<not> has_key t ''submit''"
  shows "early_submit_url lib plain =
           (if has_payload_keys (try_parse_json_from_text (json_loads lib) plain) \<and>
               \<not> truthy (guess_submit_url plain)
            then dict_get t ''url'' else guess_submit_url plain)"
proof (cases "has_payload_keys (try_parse_json_from_text (json_loads lib) plain)")
  case False
  then show ?thesis
    by (auto simp: early_submit_url_def split: option.splits)
next
  case True
  with d have t: "try_parse_json_from_text (json_loads lib) plain = Some t"
    by (simp add: detect_template_def)
  with True k have nk: "\<not> has_key t ''submit''" by simp
  then have "dict_get_default t ''submit'' (guess_submit_url plain) = guess_submit_url plain"
    by (simp add: dict_get_default_def has_key_def)
  moreover from True t have "has_key t ''url''" by (simp add: has_payload_keys_def)
  then have "dict_get_default t ''url'' (guess_submit_url plain) = dict_get t ''url''"
    by (auto simp: dict_get_default_def dict_get_def has_key_def)
  ultimately show ?thesis using True t
    by (simp add: early_submit_url_def py_or_def)
qed

text \<open>
  C5, as amended. There is a template exactly when the JSON object of the plain text has
  the keys \<^verbatim>\<open>email\<close>, \<^verbatim>\<open>secret\<close> and \<^verbatim>\<open>url\<close>, or the JSON object of the page (that of the
  plain text, else that of the markup) is not empty and its \<^verbatim>\<open>json.dumps\<close> text contains
  \<^verbatim>\<open>submit\<close> in any case; the first of the two is the template when both hold. With a
  template, the submit target of the page is the template's \<^verbatim>\<open>submit\<close> value when that is
  true, else its \<^verbatim>\<open>url\<close> value when that is true, whatever the link-derived guess is.
  When neither is true and the template lacks one of the three keys or has no
  \<^verbatim>\<open>submit\<close> key, the link-derived guess stays the target, and there is no target when
  there is no guess.
\<close>

theorem template_detection:
  "((detect_template lib text plain \<noteq> None) =
      (has_payload_keys (try_parse_json_from_text (json_loads lib) plain) \<or>
       mentions_submit lib (parse_page_json lib text plain))) \<and>
   (has_payload_keys (try_parse_json_from_text (json_loads lib) plain) \<longrightarrow>
      detect_template lib text plain = try_parse_json_from_text (json_loads lib) plain) \<and>
   (\<not> has_payload_keys (try_parse_json_from_text (json_loads lib) plain) \<and>
    mentions_submit lib (parse_page_json lib text plain) \<longrightarrow>
      detect_template lib text plain = parse_page_json lib text plain) \<and>
   (\<forall>t. detect_template lib text plain = Some t \<longrightarrow>
      t \<noteq> [] \<and>
      (truthy (dict_get t ''submit'') \<longrightarrow>
         final_submit_url (detect_template lib text plain) (early_submit_url lib plain)
           = dict_get t ''submit'') \<and>
      (\<not> truthy (dict_get t ''submit'') \<and> truthy (dict_get t ''url'') \<longrightarrow>
         final_submit_url (detect_template lib text plain) (early_submit_url lib plain)
           = dict_get t ''url'') \<and>
      (\<not> truthy (dict_get t ''submit'') \<and> \<not> truthy (dict_get t ''url'') \<and>
       (\<not> has_payload_keys (Some t) \<or> \<not> has_key t ''submit'') \<longrightarrow>
         (truthy (guess_submit_url plain) \<longrightarrow>
            final_submit_url (detect_template lib text plain) (early_submit_url lib plain)
              = guess_submit_url plain) \<and>
         (\<not> truthy (guess_submit_url plain) \<longrightarrow>
            \<not> truthy (final_submit_url (detect_template lib text plain)
                         (early_submit_url lib plain)))))"
proof (intro conjI allI impI)
  show "(detect_template lib text plain \<noteq> None) =
      (has_payload_keys (try_parse_json_from_text (json_loads lib) plain) \<or>
       mentions_submit lib (parse_page_json lib text plain))"
    by (auto simp: detect_template_def dest: has_payload_keys_Some mentions_submit_Some)
next
  assume "has_payload_keys (try_parse_json_from_text (json_loads lib) plain)"
  then show "detect_template lib text plain = try_parse_json_from_text (json_loads lib) plain"
    by (simp add: detect_template_def)
next
  assume "\<not> has_payload_keys (try_parse_json_from_text (json_loads lib) plain) \<and>
    mentions_submit lib (parse_page_json lib text plain)"
  then show "detect_template lib text plain = parse_page_json lib text plain"
    by (simp add: detect_template_def)
next
  fix t
  assume d: "detect_template lib text plain = Some t"
  then show "t \<noteq> []" by (rule detect_template_nonempty)
next
  fix t
  assume d: "detect_template lib text plain = Some t" and "truthy (dict_get t ''submit'')"
  then show "final_submit_url (detect_template lib text plain) (early_submit_url lib plain)
           = dict_get t ''submit''"
    by (simp add: d target_of_template [OF d])
next
  fix t
  assume d: "detect_template lib text plain = Some t"
    and "\<not> truthy (dict_get t ''submit'') \<and> truthy (dict_get t ''url'')"
  then show "final_submit_url (detect_template lib text plain) (early_submit_url lib plain)
           = dict_get t ''url''"
    by (simp add: d target_of_template [OF d])
next
  fix t
  assume d: "detect_template lib text plain = Some t"
    and n: "\<not> truthy (dict_get t ''submit'') \<and> \<not> truthy (dict_get t ''url'') \<and>
       (\<not> has_payload_keys (Some t) \<or> \<not> has_key t ''submit'')"
    and g: "truthy (guess_submit_url plain)"
  from n have "early_submit_url lib plain = guess_submit_url plain"
    using early_submit_url_fallback [OF d, of] g by simp
  with n show "final_submit_url (detect_template lib text plain) (early_submit_url lib plain)
              = guess_submit_url plain"
    by (simp add: d target_of_template [OF d])
next
  fix t
  assume d: "detect_template lib text plain = Some t"
    and n: "\<not> truthy (dict_get t ''submit'') \<and> \<not> truthy (dict_get t ''url'') \<and>
       (\<not> has_payload_keys (Some t) \<or> \<not> has_key t ''submit'')"
    and g: "\<not> truthy (guess_submit_url plain)"
  from n have "\<not> truthy (early_submit_url lib plain)"
    using early_submit_url_fallback [OF d, of] g by (simp split: if_splits)
  with n show "\<not> truthy (final_submit_url (detect_template lib text plain)
                         (early_submit_url lib plain))"
    by (simp add: d target_of_template [OF d])
qed


lemma fixture_submit_detect_hyp:
  \<open>\<not> has_payload_keys (try_parse_json_from_text (json_loads fixture_lib) ''{"submit": "https://q/s"}'') \<and>
   mentions_submit fixture_lib
     (parse_page_json fixture_lib ''{"submit": "https://q/s"}'' ''{"submit": "https://q/s"}'')\<close>
  by code_simp

lemma fixture_submit_page:
  \<open>parse_page_json fixture_lib ''{"submit": "https://q/s"}'' ''{"submit": "https://q/s"}''
     = Some [(''submit'', JStr ''https://q/s'')]\<close>
  by code_simp

lemma fixture_keys_hyp:
  \<open>has_payload_keys (try_parse_json_from_text (json_loads fixture_lib)
      ''https://q/submit {"email": "e", "secret": "k", "url": ""}'')\<close>
  by code_simp

lemma fixture_keys_plain:
  \<open>try_parse_json_from_text (json_loads fixture_lib)
      ''https://q/submit {"email": "e", "secret": "k", "url": ""}''
     = Some [(''email'', JStr ''e''), (''secret'', JStr ''k''), (''url'', JStr [])]\<close>
  by code_simp

lemma fixture_null_hyp:
  \<open>has_payload_keys (try_parse_json_from_text (json_loads fixture_lib)
      ''{"email": "e", "secret": "k", "url": null}'')\<close>
  by code_simp

lemma fixture_null_plain:
  \<open>try_parse_json_from_text (json_loads fixture_lib) ''{"email": "e", "secret": "k", "url": null}''
     = Some [(''email'', JStr ''e''), (''secret'', JStr ''k''), (''url'', JNull)]\<close>
  by code_simp

theorem template_detection_witness:
  \<open>detect_template fixture_lib ''{"submit": "https://q/s"}'' ''{"submit": "https://q/s"}''
     = Some [(''submit'', JStr ''https://q/s'')] \<and>
   final_submit_url
     (detect_template fixture_lib ''{"submit": "https://q/s"}'' ''{"submit": "https://q/s"}'')
     (early_submit_url fixture_lib ''{"submit": "https://q/s"}'')
     = JStr ''https://q/s'' \<and>
   detect_template fixture_lib ''https://q/submit {"email": "e", "secret": "k", "url": ""}''
      ''https://q/submit {"email": "e", "secret": "k", "url": ""}''
     = Some [(''email'', JStr ''e''), (''secret'', JStr ''k''), (''url'', JStr [])] \<and>
   final_submit_url
     (detect_template fixture_lib ''https://q/submit {"email": "e", "secret": "k", "url": ""}''
        ''https://q/submit {"email": "e", "secret": "k", "url": ""}'')
     (early_submit_url fixture_lib ''https://q/submit {"email": "e", "secret": "k", "url": ""}'')
     = JStr ''https://q/submit'' \<and>
   \<not> truthy (final_submit_url
     (detect_template fixture_lib ''{"email": "e", "secret": "k", "url": null}''
        ''{"email": "e", "secret": "k", "url": null}'')
     (early_submit_url fixture_lib ''{"email": "e", "secret": "k", "url": null}''))\<close>
proof -
  let ?sub = \<open>''{"submit": "https://q/s"}''\<close>
  let ?sobj = "[(''submit'', JStr ''https://q/s'')]"
  let ?keys = \<open>''https://q/submit {"email": "e", "secret": "k", "url": ""}''\<close>
  let ?kobj = "[(''email'', JStr ''e''), (''secret'', JStr ''k''), (''url'', JStr [])]"
  let ?null = \<open>''{"email": "e", "secret": "k", "url": null}''\<close>
  let ?nobj = "[(''email'', JStr ''e''), (''secret'', JStr ''k''), (''url'', JNull)]"
  have a: "detect_template fixture_lib ?sub ?sub = Some ?sobj"
    using template_detection [of fixture_lib ?sub ?sub, THEN conjunct2, THEN conjunct2, THEN conjunct1,
            rule_format, OF fixture_submit_detect_hyp]
    by (simp only: fixture_submit_page)
  have ts: "truthy (dict_get ?sobj ''submit'')" by code_simp
  have b0: "final_submit_url (detect_template fixture_lib ?sub ?sub) (early_submit_url fixture_lib ?sub)
              = dict_get ?sobj ''submit''"
    by (rule template_detection [of fixture_lib ?sub ?sub, THEN conjunct2, THEN conjunct2, THEN conjunct2,
             rule_format, OF a, THEN conjunct2, THEN conjunct1, rule_format, OF ts])
  have b1: "dict_get ?sobj ''submit'' = JStr ''https://q/s''" by code_simp
  have c: "detect_template fixture_lib ?keys ?keys = Some ?kobj"
    using template_detection [of fixture_lib ?keys ?keys, THEN conjunct2, THEN conjunct1, rule_format,
            OF fixture_keys_hyp]
    by (simp only: fixture_keys_plain)
  have nk: "\<not> truthy (dict_get ?kobj ''submit'') \<and> \<not> truthy (dict_get ?kobj ''url'') \<and>
            (\<not> has_payload_keys (Some ?kobj) \<or> \<not> has_key ?kobj ''submit'')"
    by code_simp
  have gk: "truthy (guess_submit_url ?keys)" by code_simp
  have d0: "final_submit_url (detect_template fixture_lib ?keys ?keys) (early_submit_url fixture_lib ?keys)
              = guess_submit_url ?keys"
    by (rule template_detection [of fixture_lib ?keys ?keys, THEN conjunct2, THEN conjunct2, THEN conjunct2,
             rule_format, OF c, THEN conjunct2, THEN conjunct2, THEN conjunct2, rule_format, OF nk,
             THEN conjunct1, rule_format, OF gk])
  have d1: "guess_submit_url ?keys = JStr ''https://q/submit''" by code_simp
  have e: "detect_template fixture_lib ?null ?null = Some ?nobj"
    using template_detection [of fixture_lib ?null ?null, THEN conjunct2, THEN conjunct1, rule_format,
            OF fixture_null_hyp]
    by (simp only: fixture_null_plain)
  have nn: "\<not> truthy (dict_get ?nobj ''submit'') \<and> \<not> truthy (dict_get ?nobj ''url'') \<and>
            (\<not> has_payload_keys (Some ?nobj) \<or> \<not> has_key ?nobj ''submit'')"
    by code_simp
  have gn: "\<not> truthy (guess_submit_url ?null)" by code_simp
  have f: "\<not> truthy (final_submit_url (detect_template fixture_lib ?null ?null)
                          (early_submit_url fixture_lib ?null))"
    by (rule template_detection [of fixture_lib ?null ?null, THEN conjunct2, THEN conjunct2, THEN conjunct2,
             rule_format, OF e, THEN conjunct2, THEN conjunct2, THEN conjunct2, rule_format, OF nn,
             THEN conjunct2, rule_format, OF gn])
  show ?thesis
    apply (intro conjI)
        apply (rule a)
       apply (simp only: b0 b1)
      apply (rule c)
     apply (simp only: d0 d1)
    apply (rule f)
    done
qed

text \<open>
  The claim as stated fails in three ways. The object of \<^verbatim>\<open>https://q/tmpl\<close> has none of
  the three keys and is the template, and the chain posts to its \<^verbatim>\<open>submit\<close> value. An
  object with the three keys that stands in the markup only, and whose text does not
  contain \<^verbatim>\<open>submit\<close>, is no template. And the template of \<^verbatim>\<open>https://q/keys\<close> has the three
  keys, no \<^verbatim>\<open>submit\<close> field and the empty string under \<^verbatim>\<open>url\<close>: its \<^verbatim>\<open>url\<close> field does not
  replace the link-derived guess \<^verbatim>\<open>https://q/submit\<close>, to which the chain posts.
\<close>

theorem template_iff_keys_counterexample:
  \<open>\<not> has_payload_keys (Some [(''submit'', JStr ''https://q/s'')]) \<and>
   detect_template fixture_lib ''{"submit": "https://q/s"}'' ''{"submit": "https://q/s"}''
     = Some [(''submit'', JStr ''https://q/s'')] \<and>
   chain_loop (Suc 0) fixture_lib fixture_remote fixture_cfg ''k'' 180 (JStr ''https://q/tmpl'') None JNull
     (acquire world0) =
   Some (Inr [(''success'', JBool True),
        (''final_response'', JObj [(''correct'', JBool False)]),
        (''submitted'',
         JObj
          [(''submit'', JStr ''https://q/s''),
           (''email'', JStr ''you@example.com''), (''secret'', JStr ''k''),
           (''url'', JStr ''https://q/tmpl''),
           (''note'', JStr ''unable to parse task automatically'')])],
   \<lparr>clock = 2, http_client_open = False, page_open = False,
      context_open = False, browser_open = False,
      calls =
        [Goto ''https://q/tmpl'',
         Post (JStr ''https://q/s'')
          [(''submit'', JStr ''https://q/s''),
           (''email'', JStr ''you@example.com''), (''secret'', JStr ''k''),
           (''url'', JStr ''https://q/tmpl''),
           (''note'', JStr ''unable to parse task automatically'')]]\<rparr>) \<and>
   parse_page_json fixture_lib ''<script>{"email": "e", "secret": "k", "url": null}</script>'' ''hello''
     = Some [(''email'', JStr ''e''), (''secret'', JStr ''k''), (''url'', JNull)] \<and>
   has_payload_keys (Some [(''email'', JStr ''e''), (''secret'', JStr ''k''), (''url'', JNull)]) \<and>
   detect_template fixture_lib ''<script>{"email": "e", "secret": "k", "url": null}</script>'' ''hello'' = None \<and>
   detect_template fixture_lib ''https://q/submit {"email": "e", "secret": "k", "url": ""}''
      ''https://q/submit {"email": "e", "secret": "k", "url": ""}''
     = Some [(''email'', JStr ''e''), (''secret'', JStr ''k''), (''url'', JStr [])] \<and>
   has_key [(''email'', JStr ''e''), (''secret'', JStr ''k''), (''url'', JStr [])] ''url'' \<and>
   \<not> has_key [(''email'', JStr ''e''), (''secret'', JStr ''k''), (''url'', JStr [])] ''submit'' \<and>
   guess_submit_url ''https://q/submit {"email": "e", "secret": "k", "url": ""}''
     = JStr ''https://q/submit'' \<and>
   chain_loop (Suc 0) fixture_lib fixture_remote fixture_cfg ''k'' 180 (JStr ''https://q/keys'') None JNull
     (acquire world0) =
   Some (Inr [(''success'', JBool True),
        (''final_response'', JObj [(''correct'', JBool True)]),
        (''submitted'',
         JObj
          [(''email'', JStr ''you@example.com''), (''secret'', JStr ''k''),
           (''url'', JStr ''https://q/keys''),
           (''note'', JStr ''unable to parse task automatically'')])],
   \<lparr>clock = 2, http_client_open = False, page_open = False,
      context_open = False, browser_open = False,
      calls =
        [Goto ''https://q/keys'',
         Post (JStr ''https://q/submit'')
          [(''email'', JStr ''you@example.com''), (''secret'', JStr ''k''),
           (''url'', JStr ''https://q/keys''),
           (''note'', JStr ''unable to parse task automatically'')]]\<rparr>)\<close>
  by code_simp

text \<open>
  The statement above leaves one case open: a template with the three keys whose
  \<^verbatim>\<open>submit\<close> key is present with a value that is not true, and whose \<^verbatim>\<open>url\<close> is not true
  either. When that template comes from the plain text, line 73 has already replaced
  the link-derived guess by the template's \<^verbatim>\<open>url\<close>, as on \<^verbatim>\<open>https://q/lost\<close>, where a link
  was found and the chain returns for want of a submit URL.
\<close>

lemma template_guess_lost_example:
  \<open>guess_submit_url ''https://q/submit {"email": "e", "secret": "k", "url": "", "submit": null}''
     = JStr ''https://q/submit'' \<and>
   chain_loop (Suc 0) fixture_lib fixture_remote fixture_cfg ''k'' 180 (JStr ''https://q/lost'') None JNull
     (acquire world0) =
   Some (Inr [(''success'', JBool False),
        (''reason'', JStr ''No submit URL found on page''),
        (''page_url'', JStr ''https://q/lost''),
        (''payload_tried'',
         JObj
          [(''email'', JStr ''you@example.com''), (''secret'', JStr ''k''),
           (''url'', JStr ''https://q/lost''), (''submit'', JNull),
           (''note'', JStr ''unable to parse task automatically'')])],
   \<lparr>clock = 1, http_client_open = False, page_open = False,
      context_open = False, browser_open = False,
      calls = [Goto ''https://q/lost'']\<rparr>)\<close>
  by code_simp

section \<open>The first-numeric loop\<close>

lemma to_numeric_sum_never_raises: "\<exists>s. to_numeric_sum lib cells = Inr s"
  by (simp add: to_numeric_sum_def)

text \<open>
  C6. With \<^verbatim>\<open>errors='coerce'\<close> the conversion never raises, so the loop over the columns
  stops at the first column of the frame, whatever its cells are, and sums what can be
  read as numbers there. For the file \<^verbatim>\<open>name,value / a,1 / b,2 / c,3\<close>, whose only
  numeric column sums to 6, the answer is 0 with the tag \<^verbatim>\<open>csv-first-numeric:name\<close>, and
  that is what the chain submits.
\<close>

theorem first_numeric_takes_first_column:
  "first_numeric lib ((c, cells) # rest) = Some (coerce_sum lib cells, c) \<and>
   pd_read_csv fixture_lib ''name,value\<newline>a,1\<newline>b,2\<newline>c,3\<newline>'' =
     Inr [(LStr ''name'', [CStr ''a'', CStr ''b'', CStr ''c'']),
          (LStr ''value'', [CNum (Finite 1), CNum (Finite 2), CNum (Finite 3)])] \<and>
   coerce_sum fixture_lib [CNum (Finite 1), CNum (Finite 2), CNum (Finite 3)] = Finite 6 \<and>
   analyse_file fixture_lib None ''https://q/data.csv'' ''name,value\<newline>a,1\<newline>b,2\<newline>c,3\<newline>'' =
     Inr (Some (JFloat (Finite 0), ''csv-first-numeric:name'')) \<and>
   chain_loop (Suc 0) fixture_lib fixture_remote fixture_cfg ''k'' 180 (JStr ''https://q/csv'') None JNull
     (acquire world0) =
   Some (Inr [(''success'', JBool True),
        (''final_response'', JObj [(''correct'', JBool True)]),
        (''submitted'',
         JObj
          [(''email'', JStr ''you@example.com''), (''secret'', JStr ''k''),
           (''url'', JStr ''https://q/csv''), (''answer'', JFloat (Finite 0)),
           (''_meta'',
            JObj
             [(''method'', JStr ''csv-first-numeric:name''),
              (''raw_page_sample'', JNull)])])],
   \<lparr>clock = 3, http_client_open = False, page_open = False,
      context_open = False, browser_open = False,
      calls =
        [Goto ''https://q/csv'', Get ''https://q/data.csv'',
         Post (JStr ''https://q/submit'')
          [(''email'', JStr ''you@example.com''), (''secret'', JStr ''k''),
           (''url'', JStr ''https://q/csv''), (''answer'', JFloat (Finite 0)),
           (''_meta'',
            JObj
             [(''method'', JStr ''csv-first-numeric:name''),
              (''raw_page_sample'', JNull)])]]\<rparr>)"
proof (intro conjI)
  show "first_numeric lib ((c, cells) # rest) = Some (coerce_sum lib cells, c)"
    by (simp add: to_numeric_sum_def)
qed code_simp+

section \<open>Exceptions that leave the answer blocks\<close>

lemma step2_never_raises: "\<exists>st' w'. step2_linked_file lib R cur pt st w = (Inr st', w')"
  by (auto simp: step2_linked_file_def split: option.splits sum.splits prod.splits)

lemma step3_never_raises: "\<exists>st'. step3_inline_sum lib pp st w = (Inr st', w)"
  by (simp add: step3_inline_sum_def)

lemma template_file_never_raises: "\<exists>st' w'. template_file_answer lib R url st w = (Inr st', w')"
  by (auto simp: template_file_answer_def split: option.splits sum.splits prod.splits)

lemma step5_never_raises: "\<exists>st'. step5_decoded lib dec st w = (Inr st', w)"
  by (auto simp: step5_decoded_def split: option.splits)

lemma step6_never_raises: "\<exists>st'. step6_fallback lib pp st w = (Inr st', w)"
  by (simp add: step6_fallback_def)

text \<open>A failed fetch of the linked file is kept in \<^verbatim>\<open>answer_meta\<close> and block 2 ends normally.\<close>

lemma step2_fetch_failure_absorbed:
  assumes "answer st = JNull" and "find is_file_link (find_hrefs pt) = Some link"
    and "http_get R (clock w) (absolute_link lib cur link) = (Inl m, d)"
  shows "step2_linked_file lib R cur pt st w =
           (Inr (st\<lparr>meta_file_error := Some (LibraryError m)\<rparr>),
            tick d [Get (absolute_link lib cur link)] w)"
  using assms by (simp add: step2_linked_file_def fetch_bytes_def)

text \<open>
  C7. Blocks 2, 3, 5 and 6 end normally on every input, and block 2 keeps a failure of
  the fetch or of the parse in \<^verbatim>\<open>answer_meta\<close>. Blocks 1 and 4 do not: on the page
  \<^verbatim>\<open>https://q/table\<close>, which asks for the sum of a column above a table without header
  row, \<^verbatim>\<open>sum_dataframe_column\<close> raises in block 1, and on the page \<^verbatim>\<open>https://q/null\<close>,
  whose template has \<^verbatim>\<open>null\<close> under \<^verbatim>\<open>url\<close>, the call of \<^verbatim>\<open>endswith\<close> raises in block 4.
  In both runs the exception ends the chain, nothing is posted and no result is returned.
  The same call of \<^verbatim>\<open>sum_dataframe_column\<close> made from block 2 is caught there.
\<close>

theorem heuristic_exception_escapes:
  "step1_table_sum fixture_lib
     ''<p>sum of the value column</p><table><tr><td>1</td><td>2</td></tr></table>''
     ''sum of the value column 1 2'' (initial_rstate None) (acquire world0)
     = (Inl AttributeError, acquire world0) \<and>
   solve_quiz_chain (Suc 0) fixture_lib fixture_remote fixture_cfg (JStr ''https://q/table'') ''k'' world0
     = Some (Inl AttributeError,
        \<lparr>clock = 2, http_client_open = True, page_open = False,
         context_open = False, browser_open = False,
         calls = [Goto ''https://q/table'']\<rparr>) \<and>
   step4_template fixture_lib fixture_remote
     (Some [(''email'', JStr ''e''), (''secret'', JStr ''k''), (''url'', JNull)])
     (initial_rstate None) (acquire world0)
     = (Inl AttributeError, acquire world0) \<and>
   solve_quiz_chain (Suc 0) fixture_lib fixture_remote fixture_cfg (JStr ''https://q/null'') ''k'' world0
     = Some (Inl AttributeError,
        \<lparr>clock = 2, http_client_open = True, page_open = False,
         context_open = False, browser_open = False,
         calls = [Goto ''https://q/null'']\<rparr>) \<and>
   tabular_answer fixture_lib (Some ''e'') [(LInt 0, [CNum (Finite 1)]), (LInt 1, [CNum (Finite 2)])]
     ''csv-sum'' ''csv-first-numeric:'' = Inl AttributeError"
  by code_simp

section \<open>Release of the resources\<close>

lemma close_all_released: "all_released (close_all w)"
  by (simp add: all_released_def close_all_def)

lemma submit_return_released:
  "submit R cur target payload cn w = (Return res, w') \<Longrightarrow> all_released w'"
  by (auto simp: submit_def close_all_released split: if_splits prod.splits sum.splits)

lemma process_page_return_released:
  "process_page lib R cfg sec p cn w = (Inr (Return res), w') \<Longrightarrow> all_released w'"
  by (auto simp: process_page_def split: prod.splits sum.splits dest: submit_return_released)

lemma iteration_return_released:
  "iteration lib R cfg sec u cn w = (Inr (Return res), w') \<Longrightarrow> all_released w'"
  by (auto simp: iteration_def split: prod.splits sum.splits dest: process_page_return_released)

text \<open>Every run of the loop that returns a result has released all four resources.\<close>

lemma chain_loop_result_released:
  "chain_loop n lib R cfg sec deadline cur cn lr w = Some (Inr res, w') \<Longrightarrow> all_released w'"
proof (induction n arbitrary: cur cn lr w)
  case 0
  then show ?case by simp
next
  case (Suc n)
  show ?case
  proof (cases "truthy cur \<and> clock w < deadline")
    case False
    with Suc.prems show ?thesis by (auto simp: close_all_released)
  next
    case True
    show ?thesis
    proof (cases cur)
      case (JStr u)
      obtain r w1 where it: "iteration lib R cfg sec u cn w = (r, w1)"
        by (cases "iteration lib R cfg sec u cn w")
      show ?thesis
      proof (cases r)
        case (Inl e)
        with Suc.prems True JStr it show ?thesis by simp
      next
        case (Inr fl)
        show ?thesis
        proof (cases fl)
          case (Return res')
          with Suc.prems True JStr it Inr have "w' = w1" by simp
          with it Inr Return show ?thesis by (auto dest: iteration_return_released)
        next
          case (Continue nxt cn' resp)
          with Suc.prems True JStr it Inr
          have "chain_loop n lib R cfg sec deadline nxt cn' resp w1 = Some (Inr res, w')" by simp
          then show ?thesis by (rule Suc.IH)
        qed
      qed
    qed (use Suc.prems True in auto)
  qed
qed

lemma solve_quiz_chain_result_released:
  "solve_quiz_chain n lib R cfg start sec w = Some (Inr res, w') \<Longrightarrow> all_released w'"
  by (auto simp: solve_quiz_chain_def all_released_def playwright_exit_def
           split: prod.splits sum.splits option.splits dest!: chain_loop_result_released)

text \<open>
  C8. On the four paths that return a result everything is released (the two lemmas
  above). When \<^verbatim>\<open>page.goto\<close> raises, as for the start URL \<^verbatim>\<open>https://q/none\<close>, no
  clean-up block is passed: leaving the \<^verbatim>\<open>async with\<close> block stops the browser, and the
  chain ends with the HTTP client still open.
\<close>

theorem http_client_left_open_on_exception:
  "solve_quiz_chain (Suc 0) fixture_lib fixture_remote fixture_cfg (JStr ''https://q/none'') ''k'' world0
     = Some (Inl (LibraryError ''net::ERR_NAME_NOT_RESOLVED''),
        \<lparr>clock = 2, http_client_open = True, page_open = False,
         context_open = False, browser_open = False,
         calls = [Goto ''https://q/none'']\<rparr>) \<and>
   \<not> all_released
        \<lparr>clock = 2, http_client_open = True, page_open = False,
         context_open = False, browser_open = False,
         calls = [Goto ''https://q/none'']\<rparr>"
  by code_simp

end
